theory Spec2Isabelle
  imports Complex_Main "HOL-Library.Word" "HOL-Library.Multiset" "HOL-Library.Sublist"
    "HOL-Library.Log_Nat"
begin

section \<open>The chat endpoint \<^verbatim>\<open>server/api/chat.post.ts\<close>\<close>

text \<open>
  A shallow embedding of the request handler of \<^verbatim>\<open>src/server/api/chat.post.ts\<close>:
  the validation of the request body, the choice between the scripted demo reply and a
  live model session, the demo text and its stream of protocol frames, and the tool
  catalogue handed to the model.

  What the file imports is not part of it and is taken as a parameter (\<open>env\<close> below):
  the functions of \<^verbatim>\<open>~/lib/ai-tools\<close>, the number formatting of the JavaScript
  runtime and its coercions of values that are not of the type an operator expects.
\<close>

subsection \<open>JavaScript values\<close>

text \<open>
  A JavaScript string is a sequence of UTF-16 code units: \<^verbatim>\<open>length\<close> and
  \<^verbatim>\<open>slice\<close> count code units. \<open>ustr\<close> embeds the ASCII and Latin-1 literals of
  the source.
\<close>

type_synonym jsstring = "16 word list"

definition ustr :: "string \<Rightarrow> jsstring" where
  "ustr s = map of_char s"

text \<open>
  A JavaScript number: a binary64 value. A finite one is the rational it stands for,
  and the two zeros are one value. The numbers of a parsed body are binary64 values;
  a sum is the exact sum rounded to binary64.
\<close>

datatype jsnum = Fin rat | PInf | NInf | NaN

text \<open>
  Rounding to binary64: to the nearest value, a tie to the one with the even
  significand, \<open>2 ^ 1024\<close> and beyond to infinity. The exponent of a positive
  \<open>a\<close> is the \<open>e\<close> with \<open>2 ^ e \<le> a < 2 ^ (e + 1)\<close>; below \<open>2 ^ - 1022\<close> the
  values are subnormal, and all are multiples of \<open>2 ^ - 1074\<close>.
\<close>

definition pow2 :: "int \<Rightarrow> rat" where
  "pow2 k = (if 0 \<le> k then 2 ^ nat k else 1 / 2 ^ nat (- k))"

definition exponent_of :: "rat \<Rightarrow> int" where
  "exponent_of a =
     (if 1 \<le> a then bitlen \<lfloor>a\<rfloor> - 1 else - bitlen (\<lceil>1 / a\<rceil> - 1))"

definition round_half_even :: "rat \<Rightarrow> int" where
  "round_half_even r =
     (let f = \<lfloor>r\<rfloor>; d = r - of_int f
      in if d < 1 / 2 then f else if 1 / 2 < d then f + 1 else if even f then f else f + 1)"

definition round64 :: "rat \<Rightarrow> jsnum" where
  "round64 x =
     (if x = 0 then Fin 0
      else
        let a = \<bar>x\<bar>;
            e = max (exponent_of a) (- 1022);
            q = pow2 (e - 52);
            r = of_int (round_half_even (a / q)) * q
        in if pow2 1024 \<le> r then (if 0 < x then PInf else NInf) else Fin (sgn x * r))"

text \<open>The sum and the difference of two numbers before rounding.\<close>

fun exact_add :: "jsnum \<Rightarrow> jsnum \<Rightarrow> jsnum" where
  "exact_add NaN _ = NaN"
| "exact_add _ NaN = NaN"
| "exact_add PInf NInf = NaN"
| "exact_add NInf PInf = NaN"
| "exact_add PInf _ = PInf"
| "exact_add _ PInf = PInf"
| "exact_add NInf _ = NInf"
| "exact_add _ NInf = NInf"
| "exact_add (Fin a) (Fin b) = Fin (a + b)"

fun num_neg :: "jsnum \<Rightarrow> jsnum" where
  "num_neg (Fin a) = Fin (- a)"
| "num_neg PInf = NInf"
| "num_neg NInf = PInf"
| "num_neg NaN = NaN"

fun rounded :: "jsnum \<Rightarrow> jsnum" where
  "rounded (Fin x) = round64 x"
| "rounded n = n"

text \<open>\<^verbatim>\<open>a + b\<close> on numbers.\<close>

definition num_add :: "jsnum \<Rightarrow> jsnum \<Rightarrow> jsnum" where
  "num_add a b = rounded (exact_add a b)"

text \<open>
  \<^verbatim>\<open>a - b\<close> where only its sign is read (a comparator, a comparison): the difference
  of two binary64 values is rounded to a value of the same sign, and is zero only when
  they are equal, so the difference is left as it is.
\<close>

definition num_sub :: "jsnum \<Rightarrow> jsnum \<Rightarrow> jsnum" where
  "num_sub a b = exact_add a (num_neg b)"

text \<open>\<open>v > 0\<close> and \<open>a \<le> b\<close> on numbers; both are false on \<open>NaN\<close>.\<close>

fun num_pos :: "jsnum \<Rightarrow> bool" where
  "num_pos (Fin a) = (0 < a)"
| "num_pos PInf = True"
| "num_pos NInf = False"
| "num_pos NaN = False"

fun num_le :: "jsnum \<Rightarrow> jsnum \<Rightarrow> bool" where
  "num_le NaN _ = False"
| "num_le _ NaN = False"
| "num_le NInf _ = True"
| "num_le _ PInf = True"
| "num_le (Fin a) (Fin b) = (a \<le> b)"
| "num_le _ _ = False"

text \<open>
  A value as the handler sees it: what \<^verbatim>\<open>JSON.parse\<close> gives, and \<open>JUndefined\<close>
  for a property that is absent. An object is its list of own properties; a parsed
  object has every key once.
\<close>

datatype jsval =
    JUndefined
  | JNull
  | JBool bool
  | JNum jsnum
  | JStr jsstring
  | JArr "jsval list"
  | JObj "(jsstring \<times> jsval) list"

text \<open>\<^verbatim>\<open>Boolean(v)\<close>, the test of \<^verbatim>\<open>if (v)\<close>, \<^verbatim>\<open>v || d\<close> and \<^verbatim>\<open>filter(Boolean)\<close>.\<close>

fun truthy :: "jsval \<Rightarrow> bool" where
  "truthy JUndefined = False"
| "truthy JNull = False"
| "truthy (JBool b) = b"
| "truthy (JNum n) = (n \<noteq> Fin 0 \<and> n \<noteq> NaN)"
| "truthy (JStr s) = (s \<noteq> [])"
| "truthy (JArr _) = True"
| "truthy (JObj _) = True"

definition js_or :: "jsval \<Rightarrow> jsval \<Rightarrow> jsval" where
  "js_or v d = (if truthy v then v else d)"

fun isArray :: "jsval \<Rightarrow> bool" where
  "isArray (JArr _) = True"
| "isArray _ = False"

text \<open>
  \<^verbatim>\<open>v?.key\<close> for a key that no prototype defines (\<^verbatim>\<open>token\<close>, \<^verbatim>\<open>symbol\<close>,
  \<^verbatim>\<open>currentValue\<close>, and the four fields of the body): the own property of an object,
  \<^verbatim>\<open>undefined\<close> on every other value, \<^verbatim>\<open>null\<close> and \<^verbatim>\<open>undefined\<close> included.
\<close>

fun getProp :: "jsstring \<Rightarrow> jsval \<Rightarrow> jsval" where
  "getProp key (JObj props) = (case map_of props key of Some v \<Rightarrow> v | None \<Rightarrow> JUndefined)"
| "getProp key _ = JUndefined"

text \<open>\<^verbatim>\<open>xs.slice(start, end)\<close> on a string or an array; \<open>None\<close> is an omitted \<^verbatim>\<open>end\<close>.\<close>

definition relative_index :: "int \<Rightarrow> nat \<Rightarrow> nat" where
  "relative_index i len = (if i < 0 then nat (max (int len + i) 0) else min (nat i) len)"

definition slice_js :: "int \<Rightarrow> int option \<Rightarrow> 'a list \<Rightarrow> 'a list" where
  "slice_js start fin xs =
     (let len = length xs;
          k = relative_index start len;
          final = (case fin of None \<Rightarrow> len | Some e \<Rightarrow> relative_index e len)
      in take (final - k) (drop k xs))"

text \<open>\<^verbatim>\<open>lines.join(sep)\<close> on an array of strings.\<close>

fun join :: "jsstring \<Rightarrow> jsstring list \<Rightarrow> jsstring" where
  "join sep [] = []"
| "join sep [x] = x"
| "join sep (x # y # ys) = x @ sep @ join sep (y # ys)"

text \<open>The decimal digits of a natural number: \<^verbatim>\<open>`${xs.length}`\<close>.\<close>

fun decimal :: "nat \<Rightarrow> jsstring" where
  "decimal n =
     (if n < 10 then [of_nat (48 + n)]
      else decimal (n div 10) @ [of_nat (48 + n mod 10)])"

declare decimal.simps [simp del]

subsection \<open>Errors\<close>

text \<open>
  What a \<^verbatim>\<open>throw\<close> carries: the error of \<^verbatim>\<open>createError\<close> with its status code and
  message, another \<^verbatim>\<open>Error\<close> with its message, or a value that is no \<^verbatim>\<open>Error\<close>.
\<close>

datatype exn = H3Error nat jsstring | JsError jsstring | NonError

definition createError :: "nat \<Rightarrow> jsstring \<Rightarrow> exn" where
  "createError statusCode message = H3Error statusCode message"

definition message_of :: "exn \<Rightarrow> jsstring" where
  "message_of e =
     (case e of
        H3Error _ m \<Rightarrow> m
      | JsError m \<Rightarrow> m
      | NonError \<Rightarrow> ustr ''Unknown error occurred'')"

text \<open>Sequencing of steps that may throw: the first error ends the computation.\<close>

definition andThen :: "exn + 'a \<Rightarrow> ('a \<Rightarrow> exn + 'b) \<Rightarrow> exn + 'b" where
  "andThen m f = (case m of Inl e \<Rightarrow> Inl e | Inr x \<Rightarrow> f x)"

text \<open>The \<^verbatim>\<open>TypeError\<close>s of the runtime; the wording of their messages is the engine's.\<close>

datatype type_error = CannotDestructure | NotAFunction

subsection \<open>The collaborators\<close>

text \<open>
  Modelled from the spec: the result types of \<^verbatim>\<open>~/lib/ai-tools\<close>, which is not among
  the sources. A \<open>WalletBalance\<close> is \<^verbatim>\<open>{ token: { symbol, ... }, balance: decimal-string,
  valueUSD: number }\<close>, a \<open>Strategy\<close> is \<^verbatim>\<open>{ id, name, protocol, apy: number,
  riskLevel: Low|Medium|High }\<close>; the handler reads \<^verbatim>\<open>totalValueUSD\<close> and
  \<^verbatim>\<open>balances\<close> of the balance result and \<^verbatim>\<open>strategies\<close> of the search result,
  and it allows for a balance without a token (\<^verbatim>\<open>balance.token?.symbol\<close>).
\<close>

record token_info =
  symbol :: jsstring

record wallet_balance =
  token :: "token_info option"
  balance :: jsstring
  valueUSD :: jsnum

record balances_result =
  totalValueUSD :: jsnum
  balances :: "wallet_balance list"

datatype risk = Low | Medium | High

record strategy =
  strategy_id :: jsstring
  name :: jsstring
  protocol :: jsstring
  apy :: jsnum
  riskLevel :: risk

record strategy_result =
  strategies :: "strategy list"

text \<open>
  The parameter of the strategy search, \<^verbatim>\<open>{ tokens?, minAPY?, riskLevel? }\<close>;
  \<open>None\<close> is \<^verbatim>\<open>undefined\<close>.
\<close>

record find_params =
  tokens :: "jsval list option"
  minAPY :: "jsnum option"
  riskLevel_filter :: "risk option"

text \<open>
  What the handler calls and does not define: the functions of \<^verbatim>\<open>~/lib/ai-tools\<close>
  (each returns or throws), \<^verbatim>\<open>convertToCoreMessages\<close> of the SDK, and the runtime:
  \<^verbatim>\<open>toLocaleString('en-US', { minimumFractionDigits: 2, maximumFractionDigits: 2 })\<close>,
  \<^verbatim>\<open>toFixed(digits)\<close>, \<^verbatim>\<open>JSON.stringify\<close>, the conversion of a string to a number, of
  an array or object to a number, and of a value that is not a string to a string.
\<close>

record env =
  executeGetWalletBalances :: "jsval \<Rightarrow> exn + balances_result"
  executeClassifyTokens :: "jsstring list option \<Rightarrow> exn + jsval"
  executeFindYieldStrategies :: "find_params \<Rightarrow> exn + strategy_result"
  executeGetStrategyDetails :: "jsstring \<Rightarrow> exn + jsval"
  executePreviewDeposit :: "jsstring \<Rightarrow> jsstring \<Rightarrow> jsstring \<Rightarrow> exn + jsval"
  executeGetPositions :: "jsval \<Rightarrow> exn + jsval"
  convertToCoreMessages :: "jsval \<Rightarrow> exn + jsval"
  toLocaleString :: "jsnum \<Rightarrow> jsstring"
  toFixed :: "nat \<Rightarrow> jsnum \<Rightarrow> jsstring"
  JSON_stringify :: "jsval \<Rightarrow> jsstring"
  StringToNumber :: "jsstring \<Rightarrow> jsnum"
  ObjectToNumber :: "jsval \<Rightarrow> exn + jsnum"
  ToString :: "jsval \<Rightarrow> exn + jsstring"
  engineMessage :: "type_error \<Rightarrow> jsstring"

definition throwTypeError :: "env \<Rightarrow> type_error \<Rightarrow> exn + 'a" where
  "throwTypeError e k = Inl (JsError (engineMessage e k))"

text \<open>\<^verbatim>\<open>Number(v)\<close>, and \<^verbatim>\<open>`${v}`\<close> in a template.\<close>

fun toNumber :: "env \<Rightarrow> jsval \<Rightarrow> exn + jsnum" where
  "toNumber e JUndefined = Inr NaN"
| "toNumber e JNull = Inr (Fin 0)"
| "toNumber e (JBool b) = Inr (Fin (if b then 1 else 0))"
| "toNumber e (JNum n) = Inr n"
| "toNumber e (JStr s) = Inr (StringToNumber e s)"
| "toNumber e (JArr xs) = ObjectToNumber e (JArr xs)"
| "toNumber e (JObj props) = ObjectToNumber e (JObj props)"

fun template :: "env \<Rightarrow> jsval \<Rightarrow> exn + jsstring" where
  "template e (JStr s) = Inr s"
| "template e v = ToString e v"

subsection \<open>The demo reply\<close>

text \<open>
  \<^verbatim>\<open>positionsList.reduce((sum, position) => sum + Number(position?.currentValue || 0), 0)\<close>:
  the loop from the left, with the sum so far; a conversion that throws ends it.
\<close>

fun reduce_positions :: "env \<Rightarrow> jsnum \<Rightarrow> jsval list \<Rightarrow> exn + jsnum" where
  "reduce_positions e acc [] = Inr acc"
| "reduce_positions e acc (position # rest) =
     andThen (toNumber e (js_or (getProp (ustr ''currentValue'') position) (JNum (Fin 0))))
       (\<lambda>n. reduce_positions e (num_add acc n) rest)"

definition totalPositionsValue :: "env \<Rightarrow> jsval list \<Rightarrow> exn + jsnum" where
  "totalPositionsValue e positionsList = reduce_positions e (Fin 0) positionsList"

text \<open>\<^verbatim>\<open>balances.map((balance) => balance?.token?.symbol).filter(Boolean)\<close>\<close>

definition tokenSymbols :: "jsval list \<Rightarrow> jsval list" where
  "tokenSymbols bs =
     filter truthy (map (\<lambda>b. getProp (ustr ''symbol'') (getProp (ustr ''token'') b)) bs)"

text \<open>The argument of the strategy search: \<^verbatim>\<open>{ tokens: tokenSymbols.length > 0 ? tokenSymbols : undefined }\<close>\<close>

definition searchParams :: "jsval list \<Rightarrow> find_params" where
  "searchParams bs =
     \<lparr> tokens = (if length (tokenSymbols bs) > 0 then Some (tokenSymbols bs) else None),
       minAPY = None,
       riskLevel_filter = None \<rparr>"

text \<open>
  \<^verbatim>\<open>Array.prototype.sort\<close> with a comparator. The sort is stable, and an element goes
  behind another one exactly when the comparator's value on the two is positive; a
  comparator's \<open>NaN\<close> is read as 0. (On a comparator that is not consistent the
  standard leaves the order to the implementation; this is one such order.)
\<close>

fun insert_sorted :: "('a \<Rightarrow> 'a \<Rightarrow> jsnum) \<Rightarrow> 'a \<Rightarrow> 'a list \<Rightarrow> 'a list" where
  "insert_sorted cmp x [] = [x]"
| "insert_sorted cmp x (y # ys) =
     (if num_pos (cmp x y) then y # insert_sorted cmp x ys else x # y # ys)"

definition sort_by :: "('a \<Rightarrow> 'a \<Rightarrow> jsnum) \<Rightarrow> 'a list \<Rightarrow> 'a list" where
  "sort_by cmp xs = foldr (insert_sorted cmp) xs []"

text \<open>\<^verbatim>\<open>[...strategyResult.strategies].sort((a, b) => b.apy - a.apy).slice(0, 3)\<close>\<close>

definition suggestedStrategies :: "strategy_result \<Rightarrow> strategy list" where
  "suggestedStrategies strategyResult =
     slice_js 0 (Some 3) (sort_by (\<lambda>a b. num_sub (apy b) (apy a)) (strategies strategyResult))"

definition formatUsd :: "env \<Rightarrow> jsnum \<Rightarrow> jsstring" where
  "formatUsd e v = ustr ''$'' @ toLocaleString e v"

definition formatAddress :: "jsstring \<Rightarrow> jsstring" where
  "formatAddress address =
     (if length address > 10
      then slice_js 0 (Some 6) address @ ustr ''...'' @ slice_js (- 4) None address
      else address)"

text \<open>
  \<^verbatim>\<open>`${formatAddress(walletAddress)}`\<close> on the value the body carries. The function is
  written for a string; on another value the same expressions run with the runtime's
  coercions: an array is sliced and joined, an object has no callable \<^verbatim>\<open>slice\<close>,
  every other value has no \<^verbatim>\<open>length\<close>.
\<close>

definition renderAddress :: "env \<Rightarrow> jsval \<Rightarrow> exn + jsstring" where
  "renderAddress e w =
     (case w of
        JStr s \<Rightarrow> Inr (formatAddress s)
      | JArr xs \<Rightarrow>
          (if length xs > 10
           then andThen (template e (JArr (slice_js 0 (Some 6) xs))) (\<lambda>front.
                andThen (template e (JArr (slice_js (- 4) None xs))) (\<lambda>back.
                Inr (front @ ustr ''...'' @ back)))
           else template e w)
      | JObj props \<Rightarrow>
          andThen (toNumber e (getProp (ustr ''length'') w)) (\<lambda>n.
            if num_pos (num_sub n (Fin 10)) then throwTypeError e NotAFunction
            else template e w)
      | _ \<Rightarrow> template e w)"

definition balanceLine :: "env \<Rightarrow> wallet_balance \<Rightarrow> jsstring" where
  "balanceLine e b =
     (let label = (case token b of
                   None \<Rightarrow> ustr ''TOKEN''
                 | Some t \<Rightarrow> if symbol t \<noteq> [] then symbol t else ustr ''TOKEN'')
      in ustr ''- '' @ label @ ustr '': '' @ balance b @ ustr '' (~'' @ formatUsd e (valueUSD b)
           @ ustr '')'')"

definition balancesSection :: "env \<Rightarrow> balances_result \<Rightarrow> jsstring" where
  "balancesSection e balancesResult =
     (if length (balances balancesResult) > 0
      then ustr ''\<newline>\<newline>Balances:\<newline>''
             @ join (ustr ''\<newline>'') (map (balanceLine e) (balances balancesResult))
      else ustr ''\<newline>\<newline>Balances: none yet. Connect a wallet to generate mock balances.'')"

definition positionsSection :: "env \<Rightarrow> jsval list \<Rightarrow> jsnum \<Rightarrow> jsstring" where
  "positionsSection e positionsList sumValue =
     (if length positionsList > 0
      then ustr ''\<newline>\<newline>Active positions: '' @ decimal (length positionsList)
             @ ustr '' (total '' @ formatUsd e sumValue @ ustr '')''
      else ustr ''\<newline>\<newline>Active positions: none yet.'')"

definition riskName :: "risk \<Rightarrow> jsstring" where
  "riskName r = (case r of Low \<Rightarrow> ustr ''Low'' | Medium \<Rightarrow> ustr ''Medium'' | High \<Rightarrow> ustr ''High'')"

text \<open>
  The dash of the strategy line is, in the source as it is stored, the three code
  units U+00E2, U+20AC, U+201D.
\<close>

definition strategyLine :: "env \<Rightarrow> strategy \<Rightarrow> jsstring" where
  "strategyLine e s =
     ustr ''- '' @ name s @ ustr '' ('' @ protocol s @ ustr '') '' @ [0xE2, 0x20AC, 0x201D]
       @ ustr '' '' @ toFixed e 1 (apy s) @ ustr ''% APY, '' @ riskName (riskLevel s)
       @ ustr '' risk''"

definition strategiesSection :: "env \<Rightarrow> strategy list \<Rightarrow> jsstring" where
  "strategiesSection e suggested =
     (if length suggested > 0
      then ustr ''\<newline>\<newline>Suggested strategies:\<newline>''
             @ join (ustr ''\<newline>'') (map (strategyLine e) suggested)
      else [])"

definition demoIntro :: jsstring where
  "demoIntro = ustr ''Demo mode: ANTHROPIC_API_KEY is not set, so responses are scripted.''"

definition genericText :: jsstring where
  "genericText =
     ustr ''\<newline>\<newline>Yield farming means putting tokens into protocols to earn rewards. Common strategies include lending, staking, and providing liquidity.''
     @ ustr ''\<newline>Connect a wallet to see personalized mock balances and strategy suggestions.''"

definition disclaimer :: jsstring where
  "disclaimer =
     ustr ''\<newline>\<newline>This is a demo with simulated transactions. Always consider risks and impermanent loss.''"

definition demoText ::
  "env \<Rightarrow> jsval \<Rightarrow> balances_result \<Rightarrow> jsval list \<Rightarrow> jsnum \<Rightarrow> strategy list \<Rightarrow> exn + jsstring" where
  "demoText e walletAddress balancesResult positionsList sumValue suggested =
     (if truthy walletAddress
      then andThen (renderAddress e walletAddress) (\<lambda>shown.
             Inr (demoIntro
                  @ ustr ''\<newline>\<newline>Wallet: '' @ shown
                  @ ustr ''\<newline>Total balance: '' @ formatUsd e (totalValueUSD balancesResult)
                  @ balancesSection e balancesResult
                  @ positionsSection e positionsList sumValue
                  @ strategiesSection e suggested
                  @ disclaimer))
      else Inr (demoIntro @ genericText @ disclaimer))"

subsection \<open>The stream of protocol frames\<close>

datatype frame =
    Start
  | StartStep
  | TextStart jsstring
  | TextDelta jsstring jsstring
  | TextEnd jsstring
  | FinishStep
  | Finish jsstring

text \<open>
  The writer holds the frames written so far. \<^verbatim>\<open>execute({ writer })\<close> of the demo
  reply is seven calls of \<^verbatim>\<open>writer.write\<close>, in this order;
  \<^verbatim>\<open>createUIMessageStream\<close> runs it on a writer that has written nothing.
\<close>

definition writer_write :: "frame \<Rightarrow> frame list \<Rightarrow> frame list" where
  "writer_write chunk written = written @ [chunk]"

definition execute :: "jsstring \<Rightarrow> frame list \<Rightarrow> frame list" where
  "execute demo writer =
     fold writer_write
       [ Start,
         StartStep,
         TextStart (ustr ''text-1''),
         TextDelta (ustr ''text-1'') demo,
         TextEnd (ustr ''text-1''),
         FinishStep,
         Finish (ustr ''stop'') ]
       writer"

definition createUIMessageStream :: "(frame list \<Rightarrow> frame list) \<Rightarrow> frame list" where
  "createUIMessageStream run = run []"

subsection \<open>The tools of the live session\<close>

text \<open>
  A call of a tool, with the arguments its schema admits, and what a tool returns:
  the result of a collaborator, or \<^verbatim>\<open>{ success, error }\<close>.
\<close>

datatype tool_call =
    get_wallet_balances
  | classify_tokens "jsstring list option"
  | find_yield_strategies find_params
  | get_strategy_details jsstring
  | preview_deposit jsstring jsstring jsstring
  | execute_deposit jsstring jsstring jsstring
  | get_positions
  | withdraw_from_position jsstring

record action_result =
  success :: bool
  error :: jsstring

datatype tool_result =
    Balances balances_result
  | Strategies strategy_result
  | Plain jsval
  | Action action_result

text \<open>
  The balances and positions of the request, which the tools close over. A tool returns
  its result, or throws, and leaves a store behind.
\<close>

record store =
  mockBalances :: jsval
  positions :: jsval

definition tool_execute :: "env \<Rightarrow> tool_call \<Rightarrow> store \<Rightarrow> (exn + tool_result) \<times> store" where
  "tool_execute e call st =
     (case call of
        get_wallet_balances \<Rightarrow>
          (andThen (executeGetWalletBalances e (js_or (mockBalances st) (JArr [])))
             (\<lambda>r. Inr (Balances r)), st)
      | classify_tokens toks \<Rightarrow>
          (andThen (executeClassifyTokens e toks) (\<lambda>r. Inr (Plain r)), st)
      | find_yield_strategies params \<Rightarrow>
          (andThen (executeFindYieldStrategies e params) (\<lambda>r. Inr (Strategies r)), st)
      | get_strategy_details strategyId \<Rightarrow>
          (andThen (executeGetStrategyDetails e strategyId) (\<lambda>r. Inr (Plain r)), st)
      | preview_deposit strategyId amount tokenSymbol \<Rightarrow>
          (andThen (executePreviewDeposit e strategyId amount tokenSymbol) (\<lambda>r. Inr (Plain r)), st)
      | execute_deposit strategyId amount tokenSymbol \<Rightarrow>
          (Inr (Action \<lparr> success = False, error = ustr ''Use client-side deposit action'' \<rparr>), st)
      | get_positions \<Rightarrow>
          (andThen (executeGetPositions e (js_or (positions st) (JArr [])))
             (\<lambda>r. Inr (Plain r)), st)
      | withdraw_from_position positionId \<Rightarrow>
          (Inr (Action \<lparr> success = False, error = ustr ''Use client-side withdraw action'' \<rparr>), st))"

subsection \<open>The live session\<close>

definition SYSTEM_PROMPT :: jsstring where
  "SYSTEM_PROMPT = ustr (
        ''You are a helpful and knowledgeable DeFi yield farming assistant. Your role is to help users understand yield farming, discover opportunities, and manage their positions.\<newline>'' @
        ''\<newline>'' @
        ''Key guidelines:\<newline>'' @
        ''- Be friendly and educational, especially for users new to DeFi\<newline>'' @
        ''- Explain concepts clearly without being condescending\<newline>'' @
        ''- When a wallet is connected, use the available tools to provide personalized recommendations\<newline>'' @
        ''- Always mention risks when discussing strategies\<newline>'' @
        ''- Use the preview_deposit tool before executing any deposits\<newline>'' @
        ''- Format numbers clearly (e.g., \"5.2% APY\", \"$1,234.56\")\<newline>'' @
        ''- When showing strategies, highlight the key differences (APY, risk level, protocol)\<newline>'' @
        ''\<newline>'' @
        ''Remember:\<newline>'' @
        ''- This is a demo/prototype with simulated transactions\<newline>'' @
        ''- All transactions are on testnet (no real money)\<newline>'' @
        ''- Tool calls help provide rich, interactive experiences\<newline>'' @
        ''\<newline>'' @
        ''When wallet is NOT connected:\<newline>'' @
        ''- Provide general educational content about yield farming\<newline>'' @
        ''- Explain different strategies and protocols\<newline>'' @
        ''- Encourage users to connect their wallet for personalized recommendations\<newline>'' @
        ''\<newline>'' @
        ''When wallet IS connected:\<newline>'' @
        ''- Use tools to read balances and suggest strategies based on their actual holdings\<newline>'' @
        ''- Provide specific, actionable recommendations\<newline>'' @
        ''- Guide users through deposit and withdrawal flows step by step'')"

text \<open>\<^verbatim>\<open>positions?.length\<close>\<close>

fun lengthProp :: "jsval \<Rightarrow> jsval" where
  "lengthProp (JArr xs) = JNum (Fin (of_nat (length xs)))"
| "lengthProp (JStr s) = JNum (Fin (of_nat (length s)))"
| "lengthProp (JObj props) = getProp (ustr ''length'') (JObj props)"
| "lengthProp _ = JUndefined"

definition systemPrompt :: "env \<Rightarrow> jsval \<Rightarrow> jsval \<Rightarrow> jsval \<Rightarrow> exn + jsstring" where
  "systemPrompt e walletAddress balancesIn positionsIn =
     (if truthy walletAddress
      then andThen (template e walletAddress) (\<lambda>address.
           andThen (template e (js_or (lengthProp positionsIn) (JNum (Fin 0)))) (\<lambda>n.
             Inr (SYSTEM_PROMPT
                  @ ustr ''\<newline>\<newline>Wallet Status: CONNECTED\<newline>Connected Address: '' @ address
                  @ ustr ''\<newline>Available Balances: ''
                  @ JSON_stringify e (js_or balancesIn (JArr []))
                  @ ustr ''\<newline>Active Positions: '' @ n @ ustr '' position(s)\<newline>''
                  @ ustr ''\<newline>Use the available tools to help this user manage their yield farming positions.'')))
      else Inr (SYSTEM_PROMPT
                @ ustr ''\<newline>\<newline>Wallet Status: NOT CONNECTED\<newline>''
                @ ustr ''Provide general information and encourage the user to connect their wallet for personalized recommendations.''))"

text \<open>
  The call of \<^verbatim>\<open>streamText\<close>, which opens the session with the model, and the two
  responses of the handler: the stream it wrote itself, and the stream of a session.
\<close>

record live_call =
  model :: jsstring
  messages :: jsval
  system :: jsstring
  maxTokens :: nat
  tools :: "tool_call \<Rightarrow> (exn + tool_result) \<times> store"

datatype response =
    UIMessageStreamResponse "frame list"
  | LiveStreamResponse live_call

definition liveMode :: "env \<Rightarrow> jsval \<Rightarrow> jsval \<Rightarrow> jsval \<Rightarrow> jsval \<Rightarrow> exn + response" where
  "liveMode e msgs walletAddress balancesIn positionsIn =
     andThen (systemPrompt e walletAddress balancesIn positionsIn) (\<lambda>prompt.
     andThen (convertToCoreMessages e msgs) (\<lambda>core.
       Inr (LiveStreamResponse
             \<lparr> model = ustr ''claude-3-5-sonnet-20241022'',
               messages = core,
               system = prompt,
               maxTokens = 4096,
               tools = (\<lambda>call. tool_execute e call
                          \<lparr> mockBalances = balancesIn, positions = positionsIn \<rparr>) \<rparr>)))"

subsection \<open>The handler\<close>

text \<open>\<^verbatim>\<open>const hasApiKey = apiKey && apiKey !== 'sk-ant-your-key-here'\<close>; \<open>None\<close> is a
  variable that is not set.\<close>

definition hasApiKey :: "jsstring option \<Rightarrow> bool" where
  "hasApiKey apiKey =
     (case apiKey of None \<Rightarrow> False | Some k \<Rightarrow> k \<noteq> [] \<and> k \<noteq> ustr ''sk-ant-your-key-here'')"

text \<open>\<^verbatim>\<open>Array.isArray(v) ? v : []\<close>\<close>

fun arrayOrEmpty :: "jsval \<Rightarrow> jsval list" where
  "arrayOrEmpty (JArr xs) = xs"
| "arrayOrEmpty _ = []"

definition demoMode :: "env \<Rightarrow> jsval \<Rightarrow> jsval \<Rightarrow> jsval \<Rightarrow> exn + response" where
  "demoMode e walletAddress balancesIn positionsIn =
     (let bs = arrayOrEmpty balancesIn;
          positionsList = arrayOrEmpty positionsIn
      in andThen (totalPositionsValue e positionsList) (\<lambda>sumValue.
         andThen (executeGetWalletBalances e (JArr bs)) (\<lambda>balancesResult.
         andThen (executeFindYieldStrategies e (searchParams bs)) (\<lambda>strategyResult.
         andThen (demoText e walletAddress balancesResult positionsList sumValue
                    (suggestedStrategies strategyResult)) (\<lambda>demo.
           Inr (UIMessageStreamResponse (createUIMessageStream (execute demo))))))))"

text \<open>
  The body of \<^verbatim>\<open>try\<close>, from the parsed body of the request on (\<open>JUndefined\<close>: the
  request has none), and the handler with its \<^verbatim>\<open>catch\<close>, which rethrows whatever was
  thrown as the error of status 500 with the message of what it caught.
\<close>

definition attempt :: "env \<Rightarrow> jsstring option \<Rightarrow> jsval \<Rightarrow> exn + response" where
  "attempt e apiKey body =
     (if body = JUndefined \<or> body = JNull then throwTypeError e CannotDestructure
      else
        let msgs = getProp (ustr ''messages'') body;
            walletAddress = getProp (ustr ''walletAddress'') body;
            balancesIn = getProp (ustr ''mockBalances'') body;
            positionsIn = getProp (ustr ''positions'') body
        in if \<not> truthy msgs \<or> \<not> isArray msgs
           then Inl (createError 400 (ustr ''Invalid request: messages array required''))
           else if \<not> hasApiKey apiKey
           then demoMode e walletAddress balancesIn positionsIn
           else liveMode e msgs walletAddress balancesIn positionsIn)"

definition rethrow :: "exn + 'a \<Rightarrow> exn + 'a" where
  "rethrow outcome =
     (case outcome of
        Inl err \<Rightarrow> Inl (createError 500 (message_of err))
      | Inr r \<Rightarrow> Inr r)"

definition handler :: "env \<Rightarrow> jsstring option \<Rightarrow> jsval \<Rightarrow> exn + response" where
  "handler e apiKey body = rethrow (attempt e apiKey body)"

subsection \<open>Sample data\<close>

text \<open>
  Collaborators and requests on which the theorems below are run: a wallet of one
  balance of 100 USDC, and a search that returns four strategies, two of them with the
  same APY.
\<close>

definition aave_usdc :: strategy where
  "aave_usdc = \<lparr> strategy_id = ustr ''s1'', name = ustr ''Aave USDC'', protocol = ustr ''Aave'',
                   apy = Fin 5, riskLevel = Low \<rparr>"

definition curve_3pool :: strategy where
  "curve_3pool = \<lparr> strategy_id = ustr ''s2'', name = ustr ''Curve 3pool'', protocol = ustr ''Curve'',
                     apy = Fin 12, riskLevel = High \<rparr>"

definition compound_usdc :: strategy where
  "compound_usdc = \<lparr> strategy_id = ustr ''s3'', name = ustr ''Compound USDC'',
                       protocol = ustr ''Compound'', apy = Fin 5, riskLevel = Low \<rparr>"

definition lido_steth :: strategy where
  "lido_steth = \<lparr> strategy_id = ustr ''s4'', name = ustr ''Lido stETH'', protocol = ustr ''Lido'',
                    apy = Fin 8, riskLevel = Medium \<rparr>"

definition sample_strategies :: "strategy list" where
  "sample_strategies = [aave_usdc, curve_3pool, compound_usdc, lido_steth]"

definition sample_balances :: balances_result where
  "sample_balances =
     \<lparr> totalValueUSD = Fin 100,
       balances = [ \<lparr> token = Some \<lparr> symbol = ustr ''USDC'' \<rparr>,
                      balance = ustr ''100'', valueUSD = Fin 100 \<rparr> ] \<rparr>"

definition sample_env :: env where
  "sample_env =
     \<lparr> executeGetWalletBalances = (\<lambda>_. Inr sample_balances),
       executeClassifyTokens = (\<lambda>_. Inr JNull),
       executeFindYieldStrategies = (\<lambda>_. Inr \<lparr> strategies = sample_strategies \<rparr>),
       executeGetStrategyDetails = (\<lambda>_. Inr JNull),
       executePreviewDeposit = (\<lambda>_ _ _. Inr JNull),
       executeGetPositions = (\<lambda>v. Inr v),
       convertToCoreMessages = (\<lambda>v. Inr v),
       toLocaleString = (\<lambda>n. if n = Fin 100 then ustr ''100.00'' else ustr ''0.00''),
       toFixed = (\<lambda>_ n. if n = Fin 5 then ustr ''5.0'' else if n = Fin 8 then ustr ''8.0''
                        else if n = Fin 12 then ustr ''12.0'' else ustr ''0.0''),
       JSON_stringify = (\<lambda>_. ustr ''[]''),
       StringToNumber = (\<lambda>_. NaN),
       ObjectToNumber = (\<lambda>_. Inr NaN),
       ToString = (\<lambda>_. Inr (ustr ''0'')),
       engineMessage = (\<lambda>_. ustr ''TypeError'') \<rparr>"

definition sample_reply :: jsstring where
  "sample_reply =
     ustr (''Demo mode: ANTHROPIC_API_KEY is not set, so responses are scripted.\<newline>'' @
           ''\<newline>'' @
           ''Wallet: 0xABCD...7890\<newline>'' @
           ''Total balance: $100.00\<newline>'' @
           ''\<newline>'' @
           ''Balances:\<newline>'' @
           ''- USDC: 100 (~$100.00)\<newline>'' @
           ''\<newline>'' @
           ''Active positions: none yet.\<newline>'' @
           ''\<newline>'' @
           ''Suggested strategies:\<newline>'' @
           ''- Curve 3pool (Curve) '') @ [0xE2, 0x20AC, 0x201D] @ ustr ('' 12.0% APY, High risk\<newline>'' @
           ''- Lido stETH (Lido) '') @ [0xE2, 0x20AC, 0x201D] @ ustr ('' 8.0% APY, Medium risk\<newline>'' @
           ''- Aave USDC (Aave) '') @ [0xE2, 0x20AC, 0x201D] @ ustr ('' 5.0% APY, Low risk\<newline>'' @
           ''\<newline>'' @
           ''This is a demo with simulated transactions. Always consider risks and impermanent loss.'')"

definition sample_body :: "jsval \<Rightarrow> jsval" where
  "sample_body msgs =
     JObj [ (ustr ''messages'', msgs),
            (ustr ''walletAddress'', JStr (ustr ''0xABCDEF1234567890'')),
            (ustr ''mockBalances'',
               JArr [ JObj [ (ustr ''token'', JObj [(ustr ''symbol'', JStr (ustr ''USDC''))]),
                             (ustr ''balance'', JStr (ustr ''100'')),
                             (ustr ''valueUSD'', JNum (Fin 100)) ] ]),
            (ustr ''positions'', JArr []) ]"

definition user_message :: jsval where
  "user_message = JObj [(ustr ''role'', JStr (ustr ''user'')), (ustr ''content'', JStr (ustr ''hi''))]"

definition other_search :: "find_params \<Rightarrow> exn + strategy_result" where
  "other_search params =
     (if tokens params = Some [JStr (ustr ''USDC'')] then Inr \<lparr> strategies = sample_strategies \<rparr>
      else Inl NonError)"


definition failing_search :: "find_params \<Rightarrow> exn + strategy_result" where
  "failing_search params =
     (if tokens params = Some [JStr (ustr ''USDC'')]
      then Inl (JsError (ustr ''no strategies for USDC''))
      else Inr \<lparr> strategies = [] \<rparr>)"

definition empty_wallet_body :: "jsval \<Rightarrow> jsval" where
  "empty_wallet_body w =
     JObj [ (ustr ''messages'', JArr [user_message]),
            (ustr ''walletAddress'', w),
            (ustr ''mockBalances'', getProp (ustr ''mockBalances'') (sample_body (JArr []))),
            (ustr ''positions'', JArr []) ]"

subsection \<open>Shorthands of the statements\<close>

abbreviation currentValue :: "jsval \<Rightarrow> jsval" where
  "currentValue position \<equiv> getProp (ustr ''currentValue'') position"

abbreviation contribution :: "env \<Rightarrow> jsval \<Rightarrow> exn + jsnum" where
  "contribution e position \<equiv> toNumber e (js_or (currentValue position) (JNum (Fin 0)))"

abbreviation finiteValue :: "jsval \<Rightarrow> rat" where
  "finiteValue position \<equiv> (case currentValue position of JNum (Fin q) \<Rightarrow> q | _ \<Rightarrow> 0)"


abbreviation by_apy :: "strategy \<Rightarrow> strategy \<Rightarrow> jsnum" where
  "by_apy \<equiv> (\<lambda>a b. num_sub (apy b) (apy a))"

abbreviation descending :: "strategy list \<Rightarrow> bool" where
  "descending \<equiv> sorted_wrt (\<lambda>a b. num_le (apy b) (apy a))"

section \<open>Properties\<close>

subsection \<open>Strings, slices and sequencing\<close>

lemma length_ustr [simp]: "length (ustr s) = length s"
  by (simp add: ustr_def)

lemma ustr_Nil [simp]: "ustr [] = []"
  by (simp add: ustr_def)

lemma ustr_append: "ustr (a @ b) = ustr a @ ustr b"
  by (simp add: ustr_def)

lemma take_ustr: "take n (ustr s) = ustr (take n s)"
  by (simp add: ustr_def take_map)

lemma drop_ustr: "drop n (ustr s) = ustr (drop n s)"
  by (simp add: ustr_def drop_map)

lemma unat_of_char: "unat (of_char c :: 16 word) = of_char c"
proof -
  have "(of_char c :: nat) mod 256 = of_char c"
    by (rule of_char_mod_256)
  then have "(of_char c :: nat) < 256"
    by (metis mod_less_divisor zero_less_numeral)
  moreover have "(256 :: nat) \<le> 2 ^ 16"
    by simp
  ultimately have small: "(of_char c :: nat) < 2 ^ 16"
    by (rule order.strict_trans2)
  have "(of_char c :: 16 word) = of_nat (of_char c)"
    by (simp add: of_nat_of_char)
  then have "unat (of_char c :: 16 word) = (of_char c :: nat) mod 2 ^ 16"
    by (simp add: unat_of_nat)
  with small show ?thesis by simp
qed

lemma of_char_word_eq_iff: "(of_char a :: 16 word) = of_char b \<longleftrightarrow> a = b"
proof
  assume "(of_char a :: 16 word) = of_char b"
  then have "unat (of_char a :: 16 word) = unat (of_char b :: 16 word)" by simp
  then have "(of_char a :: nat) = of_char b" by (simp only: unat_of_char)
  then show "a = b" by simp
qed simp

text \<open>Two literals of the source are equal code units only if they are the same text.\<close>

lemma ustr_eq_iff [simp]: "ustr a = ustr b \<longleftrightarrow> a = b"
  unfolding ustr_def
  by (simp add: inj_def of_char_word_eq_iff)

lemma ustr_eq_Nil_iff [simp]: "ustr s = [] \<longleftrightarrow> s = []"
  by (simp add: ustr_def)

lemma Nil_eq_ustr_iff [simp]: "[] = ustr s \<longleftrightarrow> s = []"
  by (simp add: ustr_def)

lemma andThen_Inl [simp]: "andThen (Inl x) f = Inl x"
  by (simp add: andThen_def)

lemma andThen_Inr [simp]: "andThen (Inr x) f = f x"
  by (simp add: andThen_def)

lemma andThen_eq_Inr: "andThen m f = Inr y \<longleftrightarrow> (\<exists>x. m = Inr x \<and> f x = Inr y)"
  by (cases m) simp_all

lemma rethrow_Inr: "rethrow m = Inr r \<longleftrightarrow> m = Inr r"
  by (simp add: rethrow_def split: sum.splits)

lemma slice_front: "slice_js 0 (Some (int n)) xs = take n xs"
  by (simp add: slice_js_def relative_index_def min_def Let_def)

lemma slice_back: "0 < n \<Longrightarrow> slice_js (- int n) None xs = drop (length xs - n) xs"
  by (auto simp add: slice_js_def relative_index_def Let_def max_def nat_diff_distrib')

subsection \<open>The two paths of the handler\<close>

lemma isArray_getProp_body:
  "isArray (getProp key body) \<Longrightarrow> body \<noteq> JUndefined \<and> body \<noteq> JNull \<and> truthy (getProp key body)"
  by (cases body; cases "getProp key body") auto

lemma attempt_demo:
  assumes "isArray (getProp (ustr ''messages'') body)" and "\<not> hasApiKey apiKey"
  shows "attempt e apiKey body
         = demoMode e (getProp (ustr ''walletAddress'') body)
             (getProp (ustr ''mockBalances'') body) (getProp (ustr ''positions'') body)"
  using assms isArray_getProp_body [OF assms(1)]
  by (simp add: attempt_def Let_def)

lemma attempt_live:
  assumes "isArray (getProp (ustr ''messages'') body)" and "hasApiKey apiKey"
  shows "attempt e apiKey body
         = liveMode e (getProp (ustr ''messages'') body) (getProp (ustr ''walletAddress'') body)
             (getProp (ustr ''mockBalances'') body) (getProp (ustr ''positions'') body)"
  using assms isArray_getProp_body [OF assms(1)]
  by (simp add: attempt_def Let_def)

lemma demo_frames:
  "createUIMessageStream (execute demo) =
     [Start, StartStep, TextStart (ustr ''text-1''), TextDelta (ustr ''text-1'') demo,
      TextEnd (ustr ''text-1''), FinishStep, Finish (ustr ''stop'')]"
  by (simp add: createUIMessageStream_def execute_def writer_write_def)

lemma demoMode_Inr:
  assumes "demoMode e w b p = Inr r"
  shows "\<exists>demo sumValue balancesResult strategyResult.
           demoText e w balancesResult (arrayOrEmpty p) sumValue
             (suggestedStrategies strategyResult) = Inr demo \<and>
           r = UIMessageStreamResponse (createUIMessageStream (execute demo))"
  using assms by (fastforce simp add: demoMode_def Let_def andThen_eq_Inr)

lemma demoMode_not_live: "demoMode e w b p \<noteq> Inr (LiveStreamResponse c)"
  by (auto simp add: demoMode_def Let_def andThen_eq_Inr)

lemma liveMode_not_demo: "liveMode e m w b p \<noteq> Inr (UIMessageStreamResponse fs)"
  by (auto simp add: liveMode_def andThen_eq_Inr)

subsection \<open>The sample request\<close>

lemma sample_env_collaborators [simp]:
  "executeGetWalletBalances sample_env v = Inr sample_balances"
  "executeFindYieldStrategies sample_env params = Inr \<lparr> strategies = sample_strategies \<rparr>"
  "convertToCoreMessages sample_env v = Inr v"
  "ToString sample_env v = Inr (ustr ''0'')"
  by (simp_all add: sample_env_def)

lemma sample_suggested:
  "suggestedStrategies \<lparr> strategies = sample_strategies \<rparr> = [curve_3pool, lido_steth, aave_usdc]"
  by (simp add: suggestedStrategies_def sort_by_def sample_strategies_def num_sub_def
      slice_js_def relative_index_def aave_usdc_def curve_3pool_def compound_usdc_def lido_steth_def)

text \<open>
  The example of the specification: the address \<^verbatim>\<open>0xABCDEF1234567890\<close>, one balance of
  100 USDC and no position give the text \<open>sample_reply\<close>, whatever the messages are.
\<close>

lemma sample_text:
  "demoText sample_env (JStr (ustr ''0xABCDEF1234567890'')) sample_balances [] (Fin 0)
     [curve_3pool, lido_steth, aave_usdc]
   = Inr sample_reply"
  by code_simp

lemma sample_run:
  "handler sample_env None (sample_body (JArr msgs))
   = Inr (UIMessageStreamResponse (createUIMessageStream (execute sample_reply)))"
  by (simp add: handler_def rethrow_def attempt_def sample_body_def hasApiKey_def demoMode_def
      totalPositionsValue_def sample_suggested sample_text)

lemma sample_live_run:
  "\<exists>call. handler sample_env (Some (ustr ''sk-ant-api03-live'')) (sample_body (JArr msgs))
     = Inr (LiveStreamResponse call)"
  by (simp add: handler_def rethrow_def attempt_def sample_body_def hasApiKey_def liveMode_def
      systemPrompt_def js_or_def Let_def)

subsection \<open>The rejected request\<close>

text \<open>
  C1. A request whose \<^verbatim>\<open>messages\<close> is absent, or is a string and no array, is not
  answered with the status 400 the handler throws for it: the \<^verbatim>\<open>throw\<close> stands inside
  the \<^verbatim>\<open>try\<close>, so the \<^verbatim>\<open>catch\<close> rethrows it with the status 500 of every other
  failure, and only the message is kept.
\<close>

theorem invalid_request_rethrown_as_500:
  "handler e apiKey (JObj [])
     = Inl (H3Error 500 (ustr ''Invalid request: messages array required'')) \<and>
   handler e apiKey (JObj [(ustr ''messages'', JStr (ustr ''hi''))])
     = Inl (H3Error 500 (ustr ''Invalid request: messages array required''))"
  by (simp add: handler_def rethrow_def attempt_def createError_def message_of_def)

text \<open>Every error of the handler has the status 500, whatever was thrown.\<close>

lemma handler_error_status:
  "handler e apiKey body = Inl err \<Longrightarrow> \<exists>m. err = H3Error 500 m"
  by (auto simp add: handler_def rethrow_def createError_def split: sum.splits)

lemma invalid_request_status:
  assumes "body \<noteq> JUndefined" and "body \<noteq> JNull"
    and "\<not> isArray (getProp (ustr ''messages'') body)"
  shows "handler e apiKey body
         = Inl (H3Error 500 (ustr ''Invalid request: messages array required''))"
  using assms
  by (simp add: handler_def rethrow_def attempt_def createError_def message_of_def Let_def)

subsection \<open>The demo reply as a function of the request\<close>

text \<open>
  C2. Two runs without a usable credential, on bodies whose \<^verbatim>\<open>messages\<close> are arrays
  and whose \<^verbatim>\<open>walletAddress\<close>, \<^verbatim>\<open>mockBalances\<close> and \<^verbatim>\<open>positions\<close> are equal, end
  the same way: with the same response, so with the same frames and, in the
  \<^verbatim>\<open>text-delta\<close>, the same text code unit for code unit, or with the same error. The
  messages and the rest of the body have no part in it.
\<close>

theorem demo_reply_pure:
  assumes "\<not> hasApiKey key1" and "\<not> hasApiKey key2"
    and "isArray (getProp (ustr ''messages'') body1)"
    and "isArray (getProp (ustr ''messages'') body2)"
    and "getProp (ustr ''walletAddress'') body1 = getProp (ustr ''walletAddress'') body2"
    and "getProp (ustr ''mockBalances'') body1 = getProp (ustr ''mockBalances'') body2"
    and "getProp (ustr ''positions'') body1 = getProp (ustr ''positions'') body2"
  shows "handler e key1 body1 = handler e key2 body2"
  using assms by (simp add: handler_def attempt_demo)

theorem demo_reply_pure_witness:
  "sample_body (JArr []) \<noteq> sample_body (JArr [user_message]) \<and>
   handler sample_env None (sample_body (JArr []))
     = handler sample_env (Some (ustr ''sk-ant-your-key-here'')) (sample_body (JArr [user_message]))"
  using demo_reply_pure [of None "Some (ustr ''sk-ant-your-key-here'')" "sample_body (JArr [])"
      "sample_body (JArr [user_message])" sample_env]
  by (simp add: hasApiKey_def sample_body_def)

subsection \<open>The frames of the demo reply\<close>

text \<open>
  C3. Whenever the handler, without a usable credential, answers with a response, the
  response is the stream of exactly seven frames \<^verbatim>\<open>start\<close>, \<^verbatim>\<open>start-step\<close>,
  \<^verbatim>\<open>text-start\<close>, one \<^verbatim>\<open>text-delta\<close>, \<^verbatim>\<open>text-end\<close>, \<^verbatim>\<open>finish-step\<close>, \<^verbatim>\<open>finish\<close>
  with the reason \<^verbatim>\<open>stop\<close>; the three text frames carry the id \<^verbatim>\<open>text-1\<close>, and the
  one \<^verbatim>\<open>text-delta\<close> carries the whole text that \<open>demoText\<close> rendered.
\<close>

theorem demo_stream_frames:
  assumes "\<not> hasApiKey apiKey" and "handler e apiKey body = Inr r"
  shows "\<exists>demo sumValue balancesResult strategyResult.
           demoText e (getProp (ustr ''walletAddress'') body) balancesResult
             (arrayOrEmpty (getProp (ustr ''positions'') body)) sumValue
             (suggestedStrategies strategyResult) = Inr demo \<and>
           r = UIMessageStreamResponse
                 [Start, StartStep, TextStart (ustr ''text-1''), TextDelta (ustr ''text-1'') demo,
                  TextEnd (ustr ''text-1''), FinishStep, Finish (ustr ''stop'')]"
proof -
  from assms have "attempt e apiKey body = Inr r"
    by (simp add: handler_def rethrow_Inr)
  with assms(1) have "demoMode e (getProp (ustr ''walletAddress'') body)
      (getProp (ustr ''mockBalances'') body) (getProp (ustr ''positions'') body) = Inr r"
    by (simp add: attempt_def throwTypeError_def Let_def split: if_splits)
  from demoMode_Inr [OF this] show ?thesis
    by (simp add: demo_frames)
qed

theorem demo_stream_frames_witness:
  "\<exists>demo. handler sample_env None (sample_body (JArr [user_message]))
     = Inr (UIMessageStreamResponse
             [Start, StartStep, TextStart (ustr ''text-1''), TextDelta (ustr ''text-1'') demo,
              TextEnd (ustr ''text-1''), FinishStep, Finish (ustr ''stop'')])"
proof -
  have none: "\<not> hasApiKey None"
    by (simp add: hasApiKey_def)
  from demo_stream_frames [OF none sample_run [of "[user_message]"]] show ?thesis
    by (auto simp add: sample_run)
qed

subsection \<open>The choice of the mode\<close>

text \<open>
  C4, as the code has it. On a body whose \<^verbatim>\<open>messages\<close> is an array, the credential is
  usable exactly when it is set, is not the empty string and is not the placeholder
  \<^verbatim>\<open>sk-ant-your-key-here\<close>. Without a usable credential the handler runs the demo
  path and never answers with the stream of a model session; with one it runs the live
  path and never answers with a stream it wrote itself.
\<close>

theorem mode_selection:
  assumes "isArray (getProp (ustr ''messages'') body)"
  shows "(hasApiKey apiKey \<longleftrightarrow>
            apiKey \<noteq> None \<and> apiKey \<noteq> Some [] \<and> apiKey \<noteq> Some (ustr ''sk-ant-your-key-here'')) \<and>
         (\<not> hasApiKey apiKey \<longrightarrow>
            handler e apiKey body
              = rethrow (demoMode e (getProp (ustr ''walletAddress'') body)
                  (getProp (ustr ''mockBalances'') body) (getProp (ustr ''positions'') body)) \<and>
            (\<forall>call. handler e apiKey body \<noteq> Inr (LiveStreamResponse call))) \<and>
         (hasApiKey apiKey \<longrightarrow>
            handler e apiKey body
              = rethrow (liveMode e (getProp (ustr ''messages'') body)
                  (getProp (ustr ''walletAddress'') body)
                  (getProp (ustr ''mockBalances'') body) (getProp (ustr ''positions'') body)) \<and>
            (\<forall>frames. handler e apiKey body \<noteq> Inr (UIMessageStreamResponse frames)))"
proof (intro conjI impI allI)
  show "hasApiKey apiKey \<longleftrightarrow>
          apiKey \<noteq> None \<and> apiKey \<noteq> Some [] \<and> apiKey \<noteq> Some (ustr ''sk-ant-your-key-here'')"
    by (cases apiKey) (simp_all add: hasApiKey_def)
next
  assume "\<not> hasApiKey apiKey"
  with assms show "handler e apiKey body
      = rethrow (demoMode e (getProp (ustr ''walletAddress'') body)
          (getProp (ustr ''mockBalances'') body) (getProp (ustr ''positions'') body))"
    by (simp add: handler_def attempt_demo)
next
  fix call
  assume "\<not> hasApiKey apiKey"
  with assms show "handler e apiKey body \<noteq> Inr (LiveStreamResponse call)"
    by (simp add: handler_def attempt_demo rethrow_Inr demoMode_not_live)
next
  assume "hasApiKey apiKey"
  with assms show "handler e apiKey body
      = rethrow (liveMode e (getProp (ustr ''messages'') body)
          (getProp (ustr ''walletAddress'') body)
          (getProp (ustr ''mockBalances'') body) (getProp (ustr ''positions'') body))"
    by (simp add: handler_def attempt_live)
next
  fix frames
  assume "hasApiKey apiKey"
  with assms show "handler e apiKey body \<noteq> Inr (UIMessageStreamResponse frames)"
    by (simp add: handler_def attempt_live rethrow_Inr liveMode_not_demo)
qed

theorem mode_selection_witness:
  "\<not> hasApiKey None \<and>
   \<not> hasApiKey (Some (ustr ''sk-ant-your-key-here'')) \<and>
   hasApiKey (Some (ustr ''sk-ant-api03-live'')) \<and>
   handler sample_env None (sample_body (JArr [user_message]))
     = Inr (UIMessageStreamResponse (createUIMessageStream (execute sample_reply))) \<and>
   handler sample_env (Some (ustr ''sk-ant-api03-live'')) (sample_body (JArr [user_message]))
     \<noteq> Inr (UIMessageStreamResponse (createUIMessageStream (execute sample_reply))) \<and>
   (\<exists>call. handler sample_env (Some (ustr ''sk-ant-api03-live'')) (sample_body (JArr [user_message]))
      = Inr (LiveStreamResponse call))"
proof -
  have arr: "isArray (getProp (ustr ''messages'') (sample_body (JArr [user_message])))"
    by (simp add: sample_body_def)
  have live: "hasApiKey (Some (ustr ''sk-ant-api03-live''))"
    by (simp add: hasApiKey_def)
  from mode_selection [OF arr, of "Some (ustr ''sk-ant-api03-live'')" sample_env] live
  have "\<forall>frames. handler sample_env (Some (ustr ''sk-ant-api03-live''))
          (sample_body (JArr [user_message])) \<noteq> Inr (UIMessageStreamResponse frames)"
    by blast
  then have "handler sample_env (Some (ustr ''sk-ant-api03-live'')) (sample_body (JArr [user_message]))
      \<noteq> Inr (UIMessageStreamResponse (createUIMessageStream (execute sample_reply)))"
    by blast
  then show ?thesis
    using sample_live_run [of "[user_message]"] sample_run [of "[user_message]"] live
    by (simp add: hasApiKey_def)
qed

text \<open>
  C4, as the specification words it, fails: a credential that is set to the empty
  string is neither absent nor the placeholder, and the handler answers with the demo
  reply.
\<close>

theorem empty_credential_runs_demo:
  "Some [] \<noteq> (None :: jsstring option) \<and>
   Some [] \<noteq> Some (ustr ''sk-ant-your-key-here'') \<and>
   handler sample_env (Some []) (JObj [(ustr ''messages'', JArr [user_message])])
     = Inr (UIMessageStreamResponse
         (createUIMessageStream (execute (demoIntro @ genericText @ disclaimer))))"
  by (simp add: handler_def rethrow_def attempt_def hasApiKey_def demoMode_def
      totalPositionsValue_def demoText_def)

subsection \<open>The abbreviated address\<close>

text \<open>
  C5, as the code has it. A wallet address that is a string of at most 10 code units is
  rendered unchanged; a longer one is rendered as its first 6 code units, three full
  stops \<^verbatim>\<open>...\<close> and its last 4 code units, so \<^verbatim>\<open>0xABCDEF1234567890\<close> is rendered
  \<^verbatim>\<open>0xABCD...7890\<close>.
\<close>

theorem formatAddress_abbreviates:
  "renderAddress e (JStr address) = Inr (formatAddress address) \<and>
   (length address \<le> 10 \<longrightarrow> formatAddress address = address) \<and>
   (10 < length address \<longrightarrow>
      formatAddress address
        = take 6 address @ ustr ''...'' @ drop (length address - 4) address)"
  using slice_front [of 6 address] slice_back [of 4 address]
  by (simp add: renderAddress_def formatAddress_def)

theorem formatAddress_abbreviates_witness:
  "formatAddress (ustr ''0x1234'') = ustr ''0x1234'' \<and>
   formatAddress (ustr ''0xABCDEF1234567890'') = ustr ''0xABCD...7890''"
  using formatAddress_abbreviates [of sample_env "ustr ''0x1234''"]
    formatAddress_abbreviates [of sample_env "ustr ''0xABCDEF1234567890''"]
  by (simp add: take_ustr drop_ustr flip: ustr_append)

text \<open>
  C5, as the specification words it, fails: the separator of the rendered address is
  not the ellipsis character U+2026. The address \<^verbatim>\<open>0xABCDEF1234567890\<close> is not
  rendered as \<^verbatim>\<open>0xABCD\<close>, U+2026, \<^verbatim>\<open>7890\<close>.
\<close>

theorem formatAddress_no_ellipsis_character:
  "formatAddress (ustr ''0xABCDEF1234567890'') \<noteq> ustr ''0xABCD'' @ [0x2026] @ ustr ''7890''"
  by (simp add: formatAddress_def slice_js_def relative_index_def ustr_def)

subsection \<open>Rounding to binary64\<close>

lemma pow2_pos [simp]: "0 < pow2 k"
  by (simp add: pow2_def)

lemma pow2_powi: "pow2 k = 2 powi k"
  by (simp add: pow2_def power_int_def field_simps)

lemma pow2_mono: "i \<le> j \<Longrightarrow> pow2 i \<le> pow2 j"
  by (simp add: pow2_powi power_int_increasing)

text \<open>The exponent is the one of the binary64 format: \<open>2 ^ e \<le> a < 2 ^ (e + 1)\<close>.\<close>

lemma exponent_of_bounds:
  assumes "0 < a"
  shows "pow2 (exponent_of a) \<le> a \<and> a < pow2 (exponent_of a + 1)"
proof (cases "1 \<le> a")
  case True
  define n where "n = \<lfloor>a\<rfloor>"
  have n: "0 < n" using True by (simp add: n_def)
  have e: "exponent_of a = bitlen n - 1"
    using True by (simp add: exponent_of_def n_def)
  have b1: "1 \<le> bitlen n"
    using n by (simp add: bitlen_ge_iff_power)
  from bitlen_bounds [OF n] have lo: "2 ^ nat (bitlen n - 1) \<le> n" and hi: "n < 2 ^ nat (bitlen n)"
    by simp_all
  have "pow2 (bitlen n - 1) = 2 ^ nat (bitlen n - 1)"
    using b1 by (simp add: pow2_def)
  also have "\<dots> = of_int (2 ^ nat (bitlen n - 1))" by simp
  also have "\<dots> \<le> of_int n" using lo by (simp only: of_int_le_iff)
  also have "\<dots> \<le> a" by (simp add: n_def)
  finally have low: "pow2 (exponent_of a) \<le> a" by (simp add: e)
  have next_int: "n + 1 \<le> 2 ^ nat (bitlen n)" using hi by linarith
  have "a < of_int (n + 1)" using floor_correct [of a] by (simp add: n_def)
  also have "\<dots> \<le> of_int (2 ^ nat (bitlen n))" using next_int by (simp only: of_int_le_iff)
  also have "\<dots> = pow2 (bitlen n)" using b1 by (simp add: pow2_def)
  finally have "a < pow2 (exponent_of a + 1)" by (simp add: e)
  with low show ?thesis ..
next
  case False
  define m where "m = \<lceil>1 / a\<rceil>"
  have "1 < 1 / a" using False assms by simp
  then have m2: "2 \<le> m" unfolding m_def by (simp add: le_ceiling_iff)
  define k where "k = bitlen (m - 1)"
  have e: "exponent_of a = - k"
    using False by (simp add: exponent_of_def m_def k_def)
  have pos: "0 < m - 1" using m2 by simp
  have k1: "1 \<le> k" using pos by (simp add: k_def bitlen_ge_iff_power)
  from bitlen_bounds [OF pos] have lo: "2 ^ nat (k - 1) \<le> m - 1" and hi: "m - 1 < 2 ^ nat k"
    by (simp_all add: k_def)
  have m_le: "m \<le> 2 ^ nat k" using hi by linarith
  have "1 / a \<le> of_int m" by (simp add: m_def)
  also have "\<dots> \<le> of_int (2 ^ nat k)" using m_le by (simp only: of_int_le_iff)
  also have "\<dots> = 2 ^ nat k" by simp
  finally have "1 / a \<le> 2 ^ nat k" .
  then have "1 / 2 ^ nat k \<le> a"
    using assms by (simp add: field_simps)
  then have low: "pow2 (exponent_of a) \<le> a"
    using k1 by (simp add: e pow2_def)
  have "(2::rat) ^ nat (k - 1) = of_int (2 ^ nat (k - 1))" by simp
  also have "\<dots> \<le> of_int (m - 1)" using lo by (simp only: of_int_le_iff)
  also have "\<dots> < 1 / a" unfolding m_def using ceiling_correct [of "1 / a"] by simp
  finally have "(2::rat) ^ nat (k - 1) < 1 / a" .
  then have "a < 1 / 2 ^ nat (k - 1)"
    using assms by (simp add: field_simps)
  moreover have "pow2 (- k + 1) = 1 / 2 ^ nat (k - 1)"
    using k1 by (auto simp add: pow2_def)
  ultimately have "a < pow2 (exponent_of a + 1)" by (simp add: e)
  with low show ?thesis ..
qed

lemma exponent_of_unique:
  assumes "pow2 e \<le> a" and "a < pow2 (e + 1)"
  shows "exponent_of a = e"
proof -
  have "0 < a" using assms(1) pow2_pos [of e] by linarith
  from exponent_of_bounds [OF this]
  have lo: "pow2 (exponent_of a) \<le> a" and hi: "a < pow2 (exponent_of a + 1)" by simp_all
  have "\<not> e + 1 \<le> exponent_of a"
    using pow2_mono [of "e + 1" "exponent_of a"] lo assms(2) by linarith
  moreover have "\<not> exponent_of a + 1 \<le> e"
    using pow2_mono [of "exponent_of a + 1" e] hi assms(1) by linarith
  ultimately show ?thesis by linarith
qed

text \<open>Rounding a positive value of a known normal exponent.\<close>

lemma round64_normal:
  assumes "pow2 e \<le> x" and "x < pow2 (e + 1)" and "- 1022 \<le> e"
  shows "round64 x =
           (if pow2 1024 \<le> of_int (round_half_even (x / pow2 (e - 52))) * pow2 (e - 52) then PInf
            else Fin (of_int (round_half_even (x / pow2 (e - 52))) * pow2 (e - 52)))"
proof -
  have pos: "0 < x" using assms(1) pow2_pos [of e] by linarith
  have "exponent_of \<bar>x\<bar> = e"
    using assms(1,2) pos by (simp add: exponent_of_unique)
  then show ?thesis
    using pos assms(3) by (simp add: round64_def Let_def max_def)
qed

lemma floor_rat_numeral: "\<lfloor>(numeral a :: rat) / numeral b\<rfloor> = numeral a div numeral b"
  using floor_divide_of_int_eq [of "numeral a" "numeral b", where ?'a = rat] by simp


text \<open>\<^verbatim>\<open>0.1 + 0.2\<close> is \<^verbatim>\<open>0.30000000000000004\<close>.\<close>

lemma num_add_example:
  "round64 (1 / 10) = Fin (3602879701896397 / 2 ^ 55) \<and>
   round64 (2 / 10) = Fin (3602879701896397 / 2 ^ 54) \<and>
   num_add (Fin (3602879701896397 / 2 ^ 55)) (Fin (3602879701896397 / 2 ^ 54))
     = Fin (5404319552844596 / 2 ^ 54)"
  using round64_normal [of "- 4" "1 / 10"] round64_normal [of "- 3" "2 / 10"]
    round64_normal [of "- 2" "3602879701896397 / 2 ^ 55 + 3602879701896397 / 2 ^ 54"]
  by (simp add: num_add_def pow2_def round_half_even_def Let_def floor_rat_numeral cong: if_cong)

subsection \<open>The total value of the positions\<close>

lemma contribution_numeric:
  assumes "\<not> truthy (currentValue p) \<or> (\<exists>q. currentValue p = JNum (Fin q))"
  shows "contribution e p = Inr (Fin (finiteValue p))"
proof (cases "truthy (currentValue p)")
  case True
  then obtain q where "currentValue p = JNum (Fin q)"
    using assms by auto
  then show ?thesis by (simp add: js_or_def)
next
  case False
  then show ?thesis
    by (cases "currentValue p") (auto simp add: js_or_def split: jsnum.splits)
qed

text \<open>The loop adds the converted values from the left, each sum rounded.\<close>

lemma reduce_positions_fold:
  "map (contribution e) ps = map Inr ns \<Longrightarrow>
   reduce_positions e acc ps = Inr (foldl num_add acc ns)"
proof (induction ps arbitrary: acc ns)
  case Nil
  then show ?case by simp
next
  case (Cons p ps)
  then obtain n rest where ns: "ns = n # rest" and n: "contribution e p = Inr n"
    and rest: "map (contribution e) ps = map Inr rest"
    by (cases ns) auto
  show ?case
    using Cons.IH [OF rest] n by (simp add: ns)
qed



lemma totalPositionsValue_numeric:
  assumes "\<forall>p \<in> set ps. \<not> truthy (currentValue p) \<or> (\<exists>q. currentValue p = JNum (Fin q))"
  shows "totalPositionsValue e ps = Inr (foldl num_add (Fin 0) (map Fin (map finiteValue ps)))"
proof -
  have "map (contribution e) ps = map Inr (map Fin (map finiteValue ps))"
    using assms by (induction ps) (simp_all add: contribution_numeric)
  then show ?thesis
    by (simp add: totalPositionsValue_def reduce_positions_fold)
qed

text \<open>
  The demo path answers whenever its two collaborators return, the wallet address is a
  string or counts as false, and the value of every position is a finite number or is
  missing.
\<close>

lemma demo_mode_responds:
  assumes "isArray (getProp (ustr ''messages'') body)" and "\<not> hasApiKey apiKey"
    and "\<forall>p \<in> set (arrayOrEmpty (getProp (ustr ''positions'') body)).
           \<not> truthy (currentValue p) \<or> (\<exists>q. currentValue p = JNum (Fin q))"
    and "executeGetWalletBalances e (JArr (arrayOrEmpty (getProp (ustr ''mockBalances'') body)))
           = Inr balancesResult"
    and "executeFindYieldStrategies e
           (searchParams (arrayOrEmpty (getProp (ustr ''mockBalances'') body))) = Inr strategyResult"
    and "\<not> truthy (getProp (ustr ''walletAddress'') body)
           \<or> (\<exists>s. getProp (ustr ''walletAddress'') body = JStr s)"
  shows "\<exists>frames. handler e apiKey body = Inr (UIMessageStreamResponse frames)"
proof -
  obtain sumValue where
    "totalPositionsValue e (arrayOrEmpty (getProp (ustr ''positions'') body)) = Inr sumValue"
    using totalPositionsValue_numeric [OF assms(3), of e] by simp
  moreover have "\<exists>demo. demoText e (getProp (ustr ''walletAddress'') body) balancesResult
       (arrayOrEmpty (getProp (ustr ''positions'') body)) sumValue
       (suggestedStrategies strategyResult) = Inr demo"
  proof (cases "truthy (getProp (ustr ''walletAddress'') body)")
    case True
    then obtain s where "getProp (ustr ''walletAddress'') body = JStr s"
      using assms(6) by blast
    then show ?thesis
      by (simp add: demoText_def renderAddress_def)
  next
    case False
    then show ?thesis
      by (simp add: demoText_def)
  qed
  then obtain demo where
    "demoText e (getProp (ustr ''walletAddress'') body) balancesResult
       (arrayOrEmpty (getProp (ustr ''positions'') body)) sumValue
       (suggestedStrategies strategyResult) = Inr demo"
    by blast
  ultimately have "demoMode e (getProp (ustr ''walletAddress'') body)
      (getProp (ustr ''mockBalances'') body) (getProp (ustr ''positions'') body)
      = Inr (UIMessageStreamResponse (createUIMessageStream (execute demo)))"
    using assms(4,5) by (simp add: demoMode_def Let_def)
  then show ?thesis
    using assms(1,2) by (simp add: handler_def attempt_demo rethrow_def)
qed




subsection \<open>The suggested strategies\<close>

lemma num_pos_sub_self [simp]: "\<not> num_pos (num_sub a a)"
  by (cases a) (simp_all add: num_sub_def)

lemma num_pos_sub_le: "num_pos (num_sub b a) \<Longrightarrow> num_le a b"
  by (cases a; cases b) (simp_all add: num_sub_def)

lemma not_num_pos_sub_le:
  "\<not> num_pos (num_sub b a) \<Longrightarrow> a \<noteq> NaN \<Longrightarrow> b \<noteq> NaN \<Longrightarrow> num_le b a"
  by (cases a; cases b) (simp_all add: num_sub_def)

lemma num_le_trans: "num_le a b \<Longrightarrow> num_le b c \<Longrightarrow> num_le a c"
  by (cases a; cases b; cases c) simp_all

lemma mset_insert_sorted [simp]: "mset (insert_sorted cmp x ys) = add_mset x (mset ys)"
  by (induction ys) simp_all

lemma mset_sort_by [simp]: "mset (sort_by cmp xs) = mset xs"
  by (induction xs) (simp_all add: sort_by_def)

lemma set_insert_sorted [simp]: "set (insert_sorted cmp x ys) = insert x (set ys)"
  by (induction ys) auto

lemma set_sort_by [simp]: "set (sort_by cmp xs) = set xs"
  by (induction xs) (simp_all add: sort_by_def)

text \<open>Inserting keeps a list descending, as long as no APY is \<open>NaN\<close>.\<close>

lemma descending_insert_sorted:
  assumes "descending ys" and "apy x \<noteq> NaN" and "\<forall>y \<in> set ys. apy y \<noteq> NaN"
  shows "descending (insert_sorted by_apy x ys)"
  using assms
proof (induction ys)
  case Nil
  then show ?case by simp
next
  case (Cons y ys)
  have below_y: "\<forall>z \<in> set ys. num_le (apy z) (apy y)"
    using Cons.prems(1) by simp
  show ?case
  proof (cases "num_pos (num_sub (apy y) (apy x))")
    case True
    then have xy: "num_le (apy x) (apy y)"
      by (rule num_pos_sub_le)
    have "descending (insert_sorted by_apy x ys)"
      using Cons by simp
    then show ?thesis
      using True xy below_y by simp
  next
    case False
    then have yx: "num_le (apy y) (apy x)"
      using Cons.prems by (simp add: not_num_pos_sub_le)
    with below_y have "\<forall>z \<in> set ys. num_le (apy z) (apy x)"
      by (blast intro: num_le_trans)
    then show ?thesis
      using False yx Cons.prems(1) by simp
  qed
qed

lemma descending_sort_by:
  "\<forall>s \<in> set xs. apy s \<noteq> NaN \<Longrightarrow> descending (sort_by by_apy xs)"
proof (induction xs)
  case Nil
  then show ?case by (simp add: sort_by_def)
next
  case (Cons x xs)
  then have "descending (sort_by by_apy xs)" by simp
  then have "descending (insert_sorted by_apy x (sort_by by_apy xs))"
    using Cons.prems by (intro descending_insert_sorted) simp_all
  then show ?case by (simp add: sort_by_def)
qed

text \<open>Inserting moves an element only behind elements of another APY.\<close>

lemma filter_insert_sorted:
  "filter (\<lambda>s. apy s = k) (insert_sorted by_apy x ys) = filter (\<lambda>s. apy s = k) (x # ys)"
proof (induction ys)
  case Nil
  show ?case by simp
next
  case (Cons y ys)
  show ?case
  proof (cases "num_pos (num_sub (apy y) (apy x))")
    case True
    then have "apy y \<noteq> apy x"
      by (metis num_pos_sub_self)
    then show ?thesis
      using True Cons.IH by auto
  next
    case False
    then show ?thesis by simp
  qed
qed

lemma filter_sort_by:
  "filter (\<lambda>s. apy s = k) (sort_by by_apy xs) = filter (\<lambda>s. apy s = k) xs"
proof (induction xs)
  case Nil
  show ?case by (simp add: sort_by_def)
next
  case (Cons x xs)
  have "filter (\<lambda>s. apy s = k) (sort_by by_apy (x # xs))
      = filter (\<lambda>s. apy s = k) (x # sort_by by_apy xs)"
    by (simp only: sort_by_def foldr.simps o_apply filter_insert_sorted)
  then show ?case using Cons.IH by simp
qed

text \<open>
  C7. Whatever the strategy search returned, the suggested strategies are the first 3
  entries, or all when there are fewer, of a list that holds the same strategies and
  holds the strategies of every single APY in the order in which they were returned;
  and this list is in descending order of APY, as long as every APY is a number (not
  \<open>NaN\<close>). That is the returned list put in descending order of APY by a stable
  sort.
\<close>

theorem suggestedStrategies_top3:
  "\<exists>ranked.
     suggestedStrategies r = take 3 ranked \<and>
     mset ranked = mset (strategies r) \<and>
     (\<forall>k. filter (\<lambda>s. apy s = k) ranked = filter (\<lambda>s. apy s = k) (strategies r)) \<and>
     ((\<forall>s \<in> set (strategies r). apy s \<noteq> NaN) \<longrightarrow>
        sorted_wrt (\<lambda>a b. num_le (apy b) (apy a)) ranked)"
proof (intro exI conjI allI impI)
  show "suggestedStrategies r = take 3 (sort_by by_apy (strategies r))"
    using slice_front [of 3 "sort_by by_apy (strategies r)"]
    by (simp add: suggestedStrategies_def)
  show "mset (sort_by by_apy (strategies r)) = mset (strategies r)"
    by simp
  show "filter (\<lambda>s. apy s = k) (sort_by by_apy (strategies r))
      = filter (\<lambda>s. apy s = k) (strategies r)" for k
    by (rule filter_sort_by)
  show "descending (sort_by by_apy (strategies r))"
    if "\<forall>s \<in> set (strategies r). apy s \<noteq> NaN"
    using that by (rule descending_sort_by)
qed

theorem suggestedStrategies_top3_witness:
  "suggestedStrategies \<lparr> strategies = sample_strategies \<rparr> = [curve_3pool, lido_steth, aave_usdc] \<and>
   (\<exists>ranked.
      [curve_3pool, lido_steth, aave_usdc] = take 3 ranked \<and>
      mset ranked = mset sample_strategies \<and>
      sorted_wrt (\<lambda>a b. num_le (apy b) (apy a)) ranked \<and>
      filter (\<lambda>s. apy s = Fin 5) ranked = [aave_usdc, compound_usdc])"
proof -
  have numbers: "\<forall>s \<in> set (strategies \<lparr> strategies = sample_strategies \<rparr>). apy s \<noteq> NaN"
    by (simp add: sample_strategies_def aave_usdc_def curve_3pool_def compound_usdc_def
        lido_steth_def)
  have fives: "filter (\<lambda>s. apy s = Fin 5) sample_strategies = [aave_usdc, compound_usdc]"
    by (simp add: sample_strategies_def aave_usdc_def curve_3pool_def compound_usdc_def
        lido_steth_def)
  from suggestedStrategies_top3 [of "\<lparr> strategies = sample_strategies \<rparr>"] numbers
  obtain ranked where
    "suggestedStrategies \<lparr> strategies = sample_strategies \<rparr> = take 3 ranked"
    "mset ranked = mset sample_strategies"
    "sorted_wrt (\<lambda>a b. num_le (apy b) (apy a)) ranked"
    "filter (\<lambda>s. apy s = Fin 5) ranked = filter (\<lambda>s. apy s = Fin 5) sample_strategies"
    by auto
  then show ?thesis
    using fives sample_suggested by auto
qed

subsection \<open>The tools that would change a balance or a position\<close>

lemma liveMode_tools:
  assumes "liveMode e msgs w b p = Inr (LiveStreamResponse call)"
  shows "tools call = (\<lambda>c. tool_execute e c \<lparr> mockBalances = b, positions = p \<rparr>)"
  using assms by (auto simp add: liveMode_def andThen_eq_Inr)

lemma handler_tools:
  assumes "handler e apiKey body = Inr (LiveStreamResponse call)"
  shows "tools call = (\<lambda>c. tool_execute e c
           \<lparr> mockBalances = getProp (ustr ''mockBalances'') body,
             positions = getProp (ustr ''positions'') body \<rparr>)"
proof -
  from assms have "attempt e apiKey body = Inr (LiveStreamResponse call)"
    by (simp add: handler_def rethrow_Inr)
  then have "liveMode e (getProp (ustr ''messages'') body) (getProp (ustr ''walletAddress'') body)
      (getProp (ustr ''mockBalances'') body) (getProp (ustr ''positions'') body)
      = Inr (LiveStreamResponse call)"
    by (simp add: attempt_def throwTypeError_def Let_def demoMode_not_live split: if_splits)
  then show ?thesis
    by (rule liveMode_tools)
qed

text \<open>
  C8. Called with any arguments and on any store, \<^verbatim>\<open>execute_deposit\<close> and
  \<^verbatim>\<open>withdraw_from_position\<close> do not throw: each returns \<^verbatim>\<open>{ success: false, error }\<close>
  with its own message, and the store of balances and positions is left as it was. So
  do the two tools of every session the handler opens, on the balances and positions of
  the request.
\<close>

theorem mutating_tools_refuse:
  "tool_execute e (execute_deposit strategyId amount tokenSymbol) st
     = (Inr (Action \<lparr> success = False, error = ustr ''Use client-side deposit action'' \<rparr>), st) \<and>
   tool_execute e (withdraw_from_position positionId) st
     = (Inr (Action \<lparr> success = False, error = ustr ''Use client-side withdraw action'' \<rparr>), st) \<and>
   (handler e apiKey body = Inr (LiveStreamResponse call) \<longrightarrow>
      tools call (execute_deposit strategyId amount tokenSymbol)
        = (Inr (Action \<lparr> success = False, error = ustr ''Use client-side deposit action'' \<rparr>),
           \<lparr> mockBalances = getProp (ustr ''mockBalances'') body,
             positions = getProp (ustr ''positions'') body \<rparr>) \<and>
      tools call (withdraw_from_position positionId)
        = (Inr (Action \<lparr> success = False, error = ustr ''Use client-side withdraw action'' \<rparr>),
           \<lparr> mockBalances = getProp (ustr ''mockBalances'') body,
             positions = getProp (ustr ''positions'') body \<rparr>))"
  using handler_tools [of e apiKey body call]
  by (simp add: tool_execute_def)

theorem mutating_tools_refuse_witness:
  "\<exists>call. handler sample_env (Some (ustr ''sk-ant-api03-live'')) (sample_body (JArr [user_message]))
            = Inr (LiveStreamResponse call) \<and>
          tools call (execute_deposit (ustr ''s1'') (ustr ''100'') (ustr ''USDC''))
            = (Inr (Action \<lparr> success = False, error = ustr ''Use client-side deposit action'' \<rparr>),
               \<lparr> mockBalances = getProp (ustr ''mockBalances'') (sample_body (JArr [user_message])),
                 positions = JArr [] \<rparr>) \<and>
          tools call (withdraw_from_position (ustr ''p1''))
            = (Inr (Action \<lparr> success = False, error = ustr ''Use client-side withdraw action'' \<rparr>),
               \<lparr> mockBalances = getProp (ustr ''mockBalances'') (sample_body (JArr [user_message])),
                 positions = JArr [] \<rparr>)"
proof -
  obtain call where run:
    "handler sample_env (Some (ustr ''sk-ant-api03-live'')) (sample_body (JArr [user_message]))
       = Inr (LiveStreamResponse call)"
    using sample_live_run by blast
  have "getProp (ustr ''positions'') (sample_body (JArr [user_message])) = JArr []"
    by (simp add: sample_body_def)
  then show ?thesis
    using run
      mutating_tools_refuse [of sample_env "ustr ''s1''" "ustr ''100''" "ustr ''USDC''" _ "ustr ''p1''"
        "Some (ustr ''sk-ant-api03-live'')" "sample_body (JArr [user_message])" call]
    by auto
qed

subsection \<open>The argument of the strategy search\<close>

lemma toNumber_search [simp]:
  "toNumber (e\<lparr>executeFindYieldStrategies := g\<rparr>) v = toNumber e v"
  by (cases v) simp_all

lemma template_search [simp]:
  "template (e\<lparr>executeFindYieldStrategies := g\<rparr>) v = template e v"
  by (cases v) simp_all

lemma reduce_positions_search [simp]:
  "reduce_positions (e\<lparr>executeFindYieldStrategies := g\<rparr>) acc ps = reduce_positions e acc ps"
  by (induction ps arbitrary: acc) simp_all

lemma demoText_search [simp]:
  "demoText (e\<lparr>executeFindYieldStrategies := g\<rparr>) w r ps t s = demoText e w r ps t s"
proof -
  have "renderAddress (e\<lparr>executeFindYieldStrategies := g\<rparr>) w = renderAddress e w"
    by (cases w) (simp_all add: renderAddress_def throwTypeError_def cong: if_cong)
  moreover have usd: "formatUsd (e\<lparr>executeFindYieldStrategies := g\<rparr>) = formatUsd e"
    by (simp add: formatUsd_def fun_eq_iff)
  moreover have "balanceLine (e\<lparr>executeFindYieldStrategies := g\<rparr>) = balanceLine e"
    using usd by (simp add: balanceLine_def fun_eq_iff)
  moreover have "strategyLine (e\<lparr>executeFindYieldStrategies := g\<rparr>) = strategyLine e"
    by (simp add: strategyLine_def fun_eq_iff)
  ultimately show ?thesis
    by (simp add: demoText_def balancesSection_def positionsSection_def strategiesSection_def)
qed

lemma demoMode_search_throws:
  assumes "totalPositionsValue e (arrayOrEmpty positionsIn) = Inr sumValue"
    and "executeGetWalletBalances e (JArr (arrayOrEmpty balancesIn)) = Inr balancesResult"
    and "executeFindYieldStrategies e (searchParams (arrayOrEmpty balancesIn)) = Inl err"
  shows "demoMode e walletAddress balancesIn positionsIn = Inl err"
  using assms by (simp add: demoMode_def Let_def)

lemma demoMode_search_returns:
  assumes "totalPositionsValue e (arrayOrEmpty positionsIn) = Inr sumValue"
    and "executeGetWalletBalances e (JArr (arrayOrEmpty balancesIn)) = Inr balancesResult"
    and "executeFindYieldStrategies e (searchParams (arrayOrEmpty balancesIn)) = Inr strategyResult"
  shows "demoMode e walletAddress balancesIn positionsIn
         = andThen (demoText e walletAddress balancesResult (arrayOrEmpty positionsIn) sumValue
                      (suggestedStrategies strategyResult))
             (\<lambda>demo. Inr (UIMessageStreamResponse (createUIMessageStream (execute demo))))"
  using assms by (simp add: demoMode_def Let_def)

text \<open>
  C9. The demo path calls the strategy search with \<^verbatim>\<open>tokens\<close> and nothing else. When
  the balances (the array of the body, or none when it is no array) have a token symbol,
  that is a \<^verbatim>\<open>token.symbol\<close> that counts as true, \<^verbatim>\<open>tokens\<close> lists exactly these
  symbols; when they have none, \<^verbatim>\<open>tokens\<close> is \<^verbatim>\<open>undefined\<close> and the search is not
  constrained. The search is called at this argument, once the total of the positions
  and the balances are there: what it throws there is what the handler fails with, and
  what it returns there is what the suggested strategies of the text are taken from.
  And it is used at this one argument only: a search that answers it alike gives the
  same run.
\<close>

theorem search_constrained_to_wallet_tokens:
  "tokens (searchParams bs) = (if tokenSymbols bs = [] then None else Some (tokenSymbols bs)) \<and>
   minAPY (searchParams bs) = None \<and>
   riskLevel_filter (searchParams bs) = None \<and>
   set (tokenSymbols bs)
     = {v. truthy v \<and> (\<exists>b \<in> set bs. v = getProp (ustr ''symbol'') (getProp (ustr ''token'') b))} \<and>
   (isArray (getProp (ustr ''messages'') body) \<longrightarrow> \<not> hasApiKey apiKey \<longrightarrow>
    totalPositionsValue e (arrayOrEmpty (getProp (ustr ''positions'') body)) = Inr sumValue \<longrightarrow>
    executeGetWalletBalances e (JArr (arrayOrEmpty (getProp (ustr ''mockBalances'') body)))
      = Inr balancesResult \<longrightarrow>
      (executeFindYieldStrategies e (searchParams (arrayOrEmpty (getProp (ustr ''mockBalances'') body)))
         = Inl err \<longrightarrow>
       handler e apiKey body = Inl (H3Error 500 (message_of err))) \<and>
      (executeFindYieldStrategies e (searchParams (arrayOrEmpty (getProp (ustr ''mockBalances'') body)))
         = Inr strategyResult \<longrightarrow>
       handler e apiKey body
         = rethrow (andThen
             (demoText e (getProp (ustr ''walletAddress'') body) balancesResult
                (arrayOrEmpty (getProp (ustr ''positions'') body)) sumValue
                (suggestedStrategies strategyResult))
             (\<lambda>demo. Inr (UIMessageStreamResponse (createUIMessageStream (execute demo))))))) \<and>
   (g (searchParams (arrayOrEmpty balancesIn))
      = executeFindYieldStrategies e (searchParams (arrayOrEmpty balancesIn)) \<longrightarrow>
    demoMode (e\<lparr>executeFindYieldStrategies := g\<rparr>) walletAddress balancesIn positionsIn
      = demoMode e walletAddress balancesIn positionsIn)"
proof (intro conjI impI)
  show "tokens (searchParams bs) = (if tokenSymbols bs = [] then None else Some (tokenSymbols bs))"
    by (simp add: searchParams_def)
  show "minAPY (searchParams bs) = None" and "riskLevel_filter (searchParams bs) = None"
    by (simp_all add: searchParams_def)
  show "set (tokenSymbols bs)
     = {v. truthy v \<and> (\<exists>b \<in> set bs. v = getProp (ustr ''symbol'') (getProp (ustr ''token'') b))}"
    by (auto simp add: tokenSymbols_def)
next
  assume "isArray (getProp (ustr ''messages'') body)" and "\<not> hasApiKey apiKey"
  then have run: "handler e apiKey body
      = rethrow (demoMode e (getProp (ustr ''walletAddress'') body)
          (getProp (ustr ''mockBalances'') body) (getProp (ustr ''positions'') body))"
    by (simp add: handler_def attempt_demo)
  assume before:
    "totalPositionsValue e (arrayOrEmpty (getProp (ustr ''positions'') body)) = Inr sumValue"
    "executeGetWalletBalances e (JArr (arrayOrEmpty (getProp (ustr ''mockBalances'') body)))
      = Inr balancesResult"
  show "handler e apiKey body = Inl (H3Error 500 (message_of err))"
    if "executeFindYieldStrategies e
          (searchParams (arrayOrEmpty (getProp (ustr ''mockBalances'') body))) = Inl err"
    using demoMode_search_throws [OF before that] run
    by (simp add: rethrow_def createError_def)
  show "handler e apiKey body
      = rethrow (andThen
          (demoText e (getProp (ustr ''walletAddress'') body) balancesResult
             (arrayOrEmpty (getProp (ustr ''positions'') body)) sumValue
             (suggestedStrategies strategyResult))
          (\<lambda>demo. Inr (UIMessageStreamResponse (createUIMessageStream (execute demo)))))"
    if "executeFindYieldStrategies e
          (searchParams (arrayOrEmpty (getProp (ustr ''mockBalances'') body))) = Inr strategyResult"
    using demoMode_search_returns [OF before that] run by simp
next
  assume "g (searchParams (arrayOrEmpty balancesIn))
      = executeFindYieldStrategies e (searchParams (arrayOrEmpty balancesIn))"
  then show "demoMode (e\<lparr>executeFindYieldStrategies := g\<rparr>) walletAddress balancesIn positionsIn
      = demoMode e walletAddress balancesIn positionsIn"
    by (simp add: demoMode_def totalPositionsValue_def Let_def)
qed

theorem search_constrained_to_wallet_tokens_witness:
  "tokens (searchParams (arrayOrEmpty (getProp (ustr ''mockBalances'') (sample_body (JArr [])))))
     = Some [JStr (ustr ''USDC'')] \<and>
   tokens (searchParams []) = None \<and>
   tokens (searchParams [JObj [(ustr ''balance'', JStr (ustr ''1''))], JNull]) = None \<and>
   handler (sample_env\<lparr>executeFindYieldStrategies := failing_search\<rparr>) None (sample_body (JArr []))
     = Inl (H3Error 500 (ustr ''no strategies for USDC'')) \<and>
   handler sample_env None (sample_body (JArr []))
     = Inr (UIMessageStreamResponse (createUIMessageStream (execute sample_reply))) \<and>
   demoMode (sample_env\<lparr>executeFindYieldStrategies := other_search\<rparr>)
       (JStr (ustr ''0xABCDEF1234567890''))
       (getProp (ustr ''mockBalances'') (sample_body (JArr []))) (JArr [])
     = demoMode sample_env (JStr (ustr ''0xABCDEF1234567890''))
         (getProp (ustr ''mockBalances'') (sample_body (JArr []))) (JArr [])"
proof -
  let ?body = "sample_body (JArr [])"
  let ?b = "getProp (ustr ''mockBalances'') ?body"
  let ?w = "JStr (ustr ''0xABCDEF1234567890'')"
  let ?failing = "sample_env\<lparr>executeFindYieldStrategies := failing_search\<rparr>"
  have usdc: "tokenSymbols (arrayOrEmpty ?b) = [JStr (ustr ''USDC'')]"
    by (simp add: tokenSymbols_def sample_body_def)
  have none: "tokenSymbols [JObj [(ustr ''balance'', JStr (ustr ''1''))], JNull] = []"
    by (simp add: tokenSymbols_def)
  have arr: "isArray (getProp (ustr ''messages'') ?body)"
    and pos: "getProp (ustr ''positions'') ?body = JArr []"
    and wallet_address: "getProp (ustr ''walletAddress'') ?body = ?w"
    by (simp_all add: sample_body_def)
  have no_key: "\<not> hasApiKey None"
    by (simp add: hasApiKey_def)
  note wallet = search_constrained_to_wallet_tokens
    [of "arrayOrEmpty ?b" ?body None sample_env "Fin 0" sample_balances _
      "\<lparr> strategies = sample_strategies \<rparr>" other_search ?b ?w "JArr []"]
  from wallet have first: "tokens (searchParams (arrayOrEmpty ?b)) = Some [JStr (ustr ''USDC'')]"
    by (simp only: usdc) simp
  then have "other_search (searchParams (arrayOrEmpty ?b))
      = executeFindYieldStrategies sample_env (searchParams (arrayOrEmpty ?b))"
    by (simp add: other_search_def)
  with wallet have run: "demoMode (sample_env\<lparr>executeFindYieldStrategies := other_search\<rparr>) ?w ?b (JArr [])
      = demoMode sample_env ?w ?b (JArr [])"
    by blast
  have "handler sample_env None ?body
      = rethrow (andThen
          (demoText sample_env ?w sample_balances [] (Fin 0)
             (suggestedStrategies \<lparr> strategies = sample_strategies \<rparr>))
          (\<lambda>demo. Inr (UIMessageStreamResponse (createUIMessageStream (execute demo)))))"
    using wallet arr no_key by (simp add: pos wallet_address totalPositionsValue_def)
  then have returned: "handler sample_env None ?body
      = Inr (UIMessageStreamResponse (createUIMessageStream (execute sample_reply)))"
    by (simp add: sample_suggested sample_text rethrow_def)
  have "failing_search (searchParams (arrayOrEmpty ?b)) = Inl (JsError (ustr ''no strategies for USDC''))"
    using first by (simp add: failing_search_def)
  then have thrown: "handler ?failing None ?body = Inl (H3Error 500 (ustr ''no strategies for USDC''))"
    using search_constrained_to_wallet_tokens
      [of _ ?body None ?failing "Fin 0" sample_balances "JsError (ustr ''no strategies for USDC'')"]
      arr no_key
    by (simp add: pos totalPositionsValue_def message_of_def sample_env_def)
  from search_constrained_to_wallet_tokens [of "[]"]
  have second: "tokens (searchParams []) = None"
    by (simp add: tokenSymbols_def)
  from search_constrained_to_wallet_tokens
    [of "[JObj [(ustr ''balance'', JStr (ustr ''1''))], JNull]"]
  have third: "tokens (searchParams [JObj [(ustr ''balance'', JStr (ustr ''1''))], JNull]) = None"
    by (simp only: none) simp
  from first second third thrown returned run show ?thesis
    by (intro conjI)
qed

subsection \<open>The empty wallet address\<close>

lemma generic_frames:
  assumes "\<not> truthy walletAddress"
    and "demoMode e walletAddress balancesIn positionsIn = Inr r"
  shows "r = UIMessageStreamResponse
           [Start, StartStep, TextStart (ustr ''text-1''),
            TextDelta (ustr ''text-1'') (demoIntro @ genericText @ disclaimer),
            TextEnd (ustr ''text-1''), FinishStep, Finish (ustr ''stop'')]"
  using assms by (auto simp add: demoMode_def Let_def andThen_eq_Inr demoText_def demo_frames)

lemma generic_response:
  assumes "\<not> truthy walletAddress"
    and "totalPositionsValue e (arrayOrEmpty positionsIn) = Inr sumValue"
    and "executeGetWalletBalances e (JArr (arrayOrEmpty balancesIn)) = Inr balancesResult"
    and "executeFindYieldStrategies e (searchParams (arrayOrEmpty balancesIn)) = Inr strategyResult"
  shows "demoMode e walletAddress balancesIn positionsIn
         = Inr (UIMessageStreamResponse
             [Start, StartStep, TextStart (ustr ''text-1''),
              TextDelta (ustr ''text-1'') (demoIntro @ genericText @ disclaimer),
              TextEnd (ustr ''text-1''), FinishStep, Finish (ustr ''stop'')])"
  using assms by (simp add: demoMode_def Let_def demoText_def demo_frames)

text \<open>
  C10. In the demo path a wallet address that is the empty string is treated as one
  that is absent. The run is the same as without the address. Every response to such a
  request is the stream whose one \<^verbatim>\<open>text-delta\<close> carries the introduction, the generic
  text on yield farming and the disclaimer, and this is the response whenever the total
  of the positions and the two collaborators are there. This text has none of the
  personalized sections: no line of the wallet, of the total balance, of the balances,
  of the positions or of the suggested strategies.
\<close>

theorem empty_address_as_absent:
  "demoMode e (JStr []) balancesIn positionsIn = demoMode e JUndefined balancesIn positionsIn \<and>
   (isArray (getProp (ustr ''messages'') body) \<longrightarrow> \<not> hasApiKey apiKey \<longrightarrow>
    getProp (ustr ''walletAddress'') body = JStr [] \<or>
      getProp (ustr ''walletAddress'') body = JUndefined \<longrightarrow>
      handler e apiKey body
        = rethrow (demoMode e JUndefined (getProp (ustr ''mockBalances'') body)
            (getProp (ustr ''positions'') body)) \<and>
      (\<forall>r. handler e apiKey body = Inr r \<longrightarrow>
         r = UIMessageStreamResponse
               [Start, StartStep, TextStart (ustr ''text-1''),
                TextDelta (ustr ''text-1'') (demoIntro @ genericText @ disclaimer),
                TextEnd (ustr ''text-1''), FinishStep, Finish (ustr ''stop'')]) \<and>
      (totalPositionsValue e (arrayOrEmpty (getProp (ustr ''positions'') body)) = Inr sumValue \<longrightarrow>
       executeGetWalletBalances e (JArr (arrayOrEmpty (getProp (ustr ''mockBalances'') body)))
         = Inr balancesResult \<longrightarrow>
       executeFindYieldStrategies e (searchParams (arrayOrEmpty (getProp (ustr ''mockBalances'') body)))
         = Inr strategyResult \<longrightarrow>
         handler e apiKey body
           = Inr (UIMessageStreamResponse
               [Start, StartStep, TextStart (ustr ''text-1''),
                TextDelta (ustr ''text-1'') (demoIntro @ genericText @ disclaimer),
                TextEnd (ustr ''text-1''), FinishStep, Finish (ustr ''stop'')]))) \<and>
   demoText e (JStr []) balancesResult positionsList sumValue suggested
     = Inr (demoIntro @ genericText @ disclaimer) \<and>
   demoText e JUndefined balancesResult positionsList sumValue suggested
     = Inr (demoIntro @ genericText @ disclaimer) \<and>
   \<not> sublist (ustr ''Wallet:'') (demoIntro @ genericText @ disclaimer) \<and>
   \<not> sublist (ustr ''Total balance:'') (demoIntro @ genericText @ disclaimer) \<and>
   \<not> sublist (ustr ''Balances:'') (demoIntro @ genericText @ disclaimer) \<and>
   \<not> sublist (ustr ''Active positions:'') (demoIntro @ genericText @ disclaimer) \<and>
   \<not> sublist (ustr ''Suggested strategies:'') (demoIntro @ genericText @ disclaimer)"
proof (intro conjI impI allI)
  show same: "demoMode e (JStr []) balancesIn positionsIn = demoMode e JUndefined balancesIn positionsIn"
    for balancesIn positionsIn
    by (simp add: demoMode_def demoText_def)
  show "demoText e (JStr []) balancesResult positionsList sumValue suggested
     = Inr (demoIntro @ genericText @ disclaimer)"
    and "demoText e JUndefined balancesResult positionsList sumValue suggested
     = Inr (demoIntro @ genericText @ disclaimer)"
    by (simp_all add: demoText_def)
  show "\<not> sublist (ustr ''Wallet:'') (demoIntro @ genericText @ disclaimer)"
    by code_simp
  show "\<not> sublist (ustr ''Total balance:'') (demoIntro @ genericText @ disclaimer)"
    by code_simp
  show "\<not> sublist (ustr ''Balances:'') (demoIntro @ genericText @ disclaimer)"
    by code_simp
  show "\<not> sublist (ustr ''Active positions:'') (demoIntro @ genericText @ disclaimer)"
    by code_simp
  show "\<not> sublist (ustr ''Suggested strategies:'') (demoIntro @ genericText @ disclaimer)"
    by code_simp
  assume arr: "isArray (getProp (ustr ''messages'') body)" and key: "\<not> hasApiKey apiKey"
    and empty: "getProp (ustr ''walletAddress'') body = JStr [] \<or>
      getProp (ustr ''walletAddress'') body = JUndefined"
  from empty same have as_absent:
    "demoMode e (getProp (ustr ''walletAddress'') body) (getProp (ustr ''mockBalances'') body)
       (getProp (ustr ''positions'') body)
     = demoMode e JUndefined (getProp (ustr ''mockBalances'') body)
         (getProp (ustr ''positions'') body)"
    by auto
  with arr key show run: "handler e apiKey body
      = rethrow (demoMode e JUndefined (getProp (ustr ''mockBalances'') body)
          (getProp (ustr ''positions'') body))"
    by (simp add: handler_def attempt_demo)
  show "r = UIMessageStreamResponse
             [Start, StartStep, TextStart (ustr ''text-1''),
              TextDelta (ustr ''text-1'') (demoIntro @ genericText @ disclaimer),
              TextEnd (ustr ''text-1''), FinishStep, Finish (ustr ''stop'')]"
    if "handler e apiKey body = Inr r" for r
    using that run generic_frames [of JUndefined e _ _ r] by (simp add: rethrow_Inr)
  show "handler e apiKey body
         = Inr (UIMessageStreamResponse
             [Start, StartStep, TextStart (ustr ''text-1''),
              TextDelta (ustr ''text-1'') (demoIntro @ genericText @ disclaimer),
              TextEnd (ustr ''text-1''), FinishStep, Finish (ustr ''stop'')])"
    if "totalPositionsValue e (arrayOrEmpty (getProp (ustr ''positions'') body)) = Inr sumValue"
      and "executeGetWalletBalances e (JArr (arrayOrEmpty (getProp (ustr ''mockBalances'') body)))
         = Inr balancesResult"
      and "executeFindYieldStrategies e
         (searchParams (arrayOrEmpty (getProp (ustr ''mockBalances'') body))) = Inr strategyResult"
    using generic_response [OF _ that, of JUndefined] run by (simp add: rethrow_def)
qed

theorem empty_address_as_absent_witness:
  "handler sample_env None (empty_wallet_body (JStr []))
     = Inr (UIMessageStreamResponse
         [Start, StartStep, TextStart (ustr ''text-1''),
          TextDelta (ustr ''text-1'') (demoIntro @ genericText @ disclaimer),
          TextEnd (ustr ''text-1''), FinishStep, Finish (ustr ''stop'')]) \<and>
   handler sample_env None (empty_wallet_body (JStr []))
     = handler sample_env None (empty_wallet_body JUndefined) \<and>
   handler sample_env None (empty_wallet_body (JStr []))
     \<noteq> handler sample_env None (sample_body (JArr [user_message]))"
proof -
  have arr: "isArray (getProp (ustr ''messages'') (empty_wallet_body w))" for w
    by (simp add: empty_wallet_body_def)
  have key: "\<not> hasApiKey None"
    by (simp add: hasApiKey_def)
  have total: "totalPositionsValue sample_env
      (arrayOrEmpty (getProp (ustr ''positions'') (empty_wallet_body w))) = Inr (Fin 0)" for w
    by (simp add: empty_wallet_body_def totalPositionsValue_def)
  have generic: "handler sample_env None (empty_wallet_body w)
      = Inr (UIMessageStreamResponse
         [Start, StartStep, TextStart (ustr ''text-1''),
          TextDelta (ustr ''text-1'') (demoIntro @ genericText @ disclaimer),
          TextEnd (ustr ''text-1''), FinishStep, Finish (ustr ''stop'')])"
    if w: "w = JStr [] \<or> w = JUndefined" for w
  proof -
    have "getProp (ustr ''walletAddress'') (empty_wallet_body w) = w"
      by (simp add: empty_wallet_body_def)
    with w have address: "getProp (ustr ''walletAddress'') (empty_wallet_body w) = JStr [] \<or>
        getProp (ustr ''walletAddress'') (empty_wallet_body w) = JUndefined"
      by simp
    from empty_address_as_absent
      [of sample_env _ _ "empty_wallet_body w" None "Fin 0" sample_balances
        "\<lparr> strategies = sample_strategies \<rparr>"]
      arr [of w] key address
    have "totalPositionsValue sample_env
            (arrayOrEmpty (getProp (ustr ''positions'') (empty_wallet_body w))) = Inr (Fin 0) \<longrightarrow>
          executeGetWalletBalances sample_env
            (JArr (arrayOrEmpty (getProp (ustr ''mockBalances'') (empty_wallet_body w))))
            = Inr sample_balances \<longrightarrow>
          executeFindYieldStrategies sample_env
            (searchParams (arrayOrEmpty (getProp (ustr ''mockBalances'') (empty_wallet_body w))))
            = Inr \<lparr> strategies = sample_strategies \<rparr> \<longrightarrow>
          handler sample_env None (empty_wallet_body w)
            = Inr (UIMessageStreamResponse
               [Start, StartStep, TextStart (ustr ''text-1''),
                TextDelta (ustr ''text-1'') (demoIntro @ genericText @ disclaimer),
                TextEnd (ustr ''text-1''), FinishStep, Finish (ustr ''stop'')])"
      by blast
    then show ?thesis
      using total [of w] by simp
  qed
  have "sample_reply \<noteq> demoIntro @ genericText @ disclaimer"
    by code_simp
  then have "handler sample_env None (sample_body (JArr [user_message]))
      \<noteq> handler sample_env None (empty_wallet_body (JStr []))"
    using generic [of "JStr []"] by (simp add: sample_run demo_frames)
  then show ?thesis
    using generic [of "JStr []"] generic [of JUndefined] by simp
qed

end
